theory Spec2Isabelle
  imports Main
begin

section \<open>Exceptions, paths and the filesystem\<close>

text \<open>
  The module \<^verbatim>\<open>src/analysis/load_spectra.py\<close> is glue around the standard library
  (\<^verbatim>\<open>tarfile\<close>, \<^verbatim>\<open>tempfile\<close>, \<^verbatim>\<open>shutil\<close>, \<^verbatim>\<open>os\<close>, \<^verbatim>\<open>fnmatch\<close>, \<^verbatim>\<open>re\<close>), \<^verbatim>\<open>pandas\<close> and
  \<^verbatim>\<open>ramanalysis\<close>. Every raise of the Python is a value \<open>Inl e\<close> of the result; the
  filesystem is an explicit state that each effectful function takes and returns. For the
  archive helpers a path, a member name and the content of a file are opaque names
  (\<open>string\<close>); where the code looks at the characters of a \<^verbatim>\<open>str\<close> (the file names of a
  directory), a \<^verbatim>\<open>str\<close> is the list of its code points.
\<close>

datatype exn =
    KeyError
  | AttributeError
  | FileNotFoundError
  | FileExistsError
  | ReadError
  | UnboundLocalError
  | IndexError
  | ValueError
  | LibraryError string

type_synonym path = string
type_synonym bytes = string

text \<open>
  A member of a tar archive either carries data (a regular file) or does not (a
  directory, a device): \<^verbatim>\<open>TarFile.extractfile\<close> returns a file object for the first kind,
  \<^verbatim>\<open>None\<close> for the second, and raises \<^verbatim>\<open>KeyError\<close> for a name that is not in the archive.
\<close>

datatype tar_member = RegularFile bytes | NoData

type_synonym archive = "string \<rightharpoonup> tar_member"

text \<open>
  The state: the files on disk by path, the candidate names that \<^verbatim>\<open>tempfile\<close> will
  draw next (its random name sequence), and \<^verbatim>\<open>tempfile.TMP_MAX\<close>, the number of
  candidates it tries before giving up.
\<close>

record world =
  files :: "path \<rightharpoonup> bytes"
  candidate_names :: "nat \<Rightarrow> path"
  tmp_max :: nat

text \<open>
  \<^verbatim>\<open>tarfile.open(tarpath, "r")\<close>: the file must exist and be readable as an archive.
  The tar format itself is the parameter \<open>untar\<close>.
\<close>

definition tarfile_open :: "(bytes \<rightharpoonup> archive) \<Rightarrow> world \<Rightarrow> path \<Rightarrow> exn + archive" where
  "tarfile_open untar w tarpath =
     (case files w tarpath of
        None \<Rightarrow> Inl FileNotFoundError
      | Some b \<Rightarrow> (case untar b of None \<Rightarrow> Inl ReadError | Some tar \<Rightarrow> Inr tar))"

definition extractfile :: "archive \<Rightarrow> string \<Rightarrow> exn + bytes option" where
  "extractfile tar filename =
     (case tar filename of
        None \<Rightarrow> Inl KeyError
      | Some (RegularFile b) \<Rightarrow> Inr (Some b)
      | Some NoData \<Rightarrow> Inr None)"

text \<open>
  \<^verbatim>\<open>tempfile._mkstemp_inner\<close>: candidates are tried in turn, a name already in use is
  skipped (the file is opened with \<^verbatim>\<open>O_EXCL\<close>), and after \<^verbatim>\<open>TMP_MAX\<close> tries
  \<^verbatim>\<open>FileExistsError\<close> is raised. The result is the index of the first free candidate.
\<close>

function mkstemp_inner :: "nat \<Rightarrow> world \<Rightarrow> exn + nat" where
  "mkstemp_inner seq w =
     (if tmp_max w \<le> seq then Inl FileExistsError
      else if files w (candidate_names w seq) \<noteq> None then mkstemp_inner (Suc seq) w
      else Inr seq)"
  by pat_completeness auto
termination
  by (relation "measure (\<lambda>(seq, w). tmp_max w - seq)") auto

declare mkstemp_inner.simps [simp del]

text \<open>
  \<^verbatim>\<open>tempfile.NamedTemporaryFile(...)\<close> on entry: a new, empty file under a name that was
  not in use; the candidates tried are consumed.
\<close>

definition NamedTemporaryFile :: "world \<Rightarrow> exn + path \<times> world" where
  "NamedTemporaryFile w =
     (case mkstemp_inner 0 w of
        Inl e \<Rightarrow> Inl e
      | Inr seq \<Rightarrow>
          Inr (candidate_names w seq,
               w\<lparr>files := (files w)(candidate_names w seq \<mapsto> []),
                 candidate_names := (\<lambda>i. candidate_names w (i + Suc seq))\<rparr>))"

text \<open>
  \<^verbatim>\<open>shutil.copyfileobj(fsrc, fdst)\<close> reads \<^verbatim>\<open>fsrc.read\<close>: on \<^verbatim>\<open>None\<close> (a member without
  data) that is an \<^verbatim>\<open>AttributeError\<close>. Otherwise the data is written to the temporary
  file (the \<^verbatim>\<open>flush\<close> or \<^verbatim>\<open>close\<close> that follows in the source puts it on disk before the
  path is handed on).
\<close>

definition copyfileobj :: "bytes option \<Rightarrow> path \<Rightarrow> world \<Rightarrow> exn + world" where
  "copyfileobj fsrc tmp_file w =
     (case fsrc of
        None \<Rightarrow> Inl AttributeError
      | Some b \<Rightarrow> Inr (w\<lparr>files := (files w)(tmp_file \<mapsto> b)\<rparr>))"

text \<open>
  Leaving \<^verbatim>\<open>with NamedTemporaryFile(delete=True)\<close>: the file is closed and unlinked. When
  the file is already gone, CPython 3.12 and later go on; CPython 3.10 and 3.11, on which
  the module runs as well, raise \<^verbatim>\<open>FileNotFoundError\<close> out of the \<^verbatim>\<open>with\<close> block. The
  parameter \<open>missing_ok\<close> says which of the two the interpreter does.
\<close>

definition unlink_on_close :: "bool \<Rightarrow> path \<Rightarrow> world \<Rightarrow> exn + world" where
  "unlink_on_close missing_ok tmp_file w =
     (case files w tmp_file of
        None \<Rightarrow> if missing_ok then Inr w else Inl FileNotFoundError
      | Some _ \<Rightarrow> Inr (w\<lparr>files := (files w)(tmp_file := None)\<rparr>))"

text \<open>\<^verbatim>\<open>os.remove(path)\<close> raises \<^verbatim>\<open>FileNotFoundError\<close> when there is no such file.\<close>

definition os_remove :: "path \<Rightarrow> world \<Rightarrow> exn + world" where
  "os_remove p w =
     (case files w p of
        None \<Rightarrow> Inl FileNotFoundError
      | Some _ \<Rightarrow> Inr (w\<lparr>files := (files w)(p := None)\<rparr>))"

text \<open>
  A Python callable that receives paths as positional arguments and keyword arguments
  \<open>'k\<close>: it may read and change the filesystem, and returns or raises.
\<close>

type_synonym ('k, 'a) callable = "path list \<Rightarrow> 'k \<Rightarrow> world \<Rightarrow> (exn + 'a) \<times> world"

section \<open>The archive helpers\<close>

text \<open>
  \<^verbatim>\<open>tar_wrapper_single\<close> (lines 17-31). The member is looked up before the temporary
  file exists; from then on every exit runs the cleanup of the \<^verbatim>\<open>with\<close> block, and an
  exception raised by the cleanup replaces what the block produced.
\<close>

definition tar_wrapper_single ::
  "bool \<Rightarrow> (bytes \<rightharpoonup> archive) \<Rightarrow> path \<Rightarrow> string \<Rightarrow> ('k, 'a) callable \<Rightarrow> 'k \<Rightarrow> world
     \<Rightarrow> (exn + 'a) \<times> world" where
  "tar_wrapper_single missing_ok untar tarpath filename function kwargs w =
     (case tarfile_open untar w tarpath of
        Inl e \<Rightarrow> (Inl e, w)
      | Inr tar \<Rightarrow>
          (case extractfile tar filename of
             Inl e \<Rightarrow> (Inl e, w)
           | Inr tar_member \<Rightarrow>
               (case NamedTemporaryFile w of
                  Inl e \<Rightarrow> (Inl e, w)
                | Inr (tmp_file, w1) \<Rightarrow>
                    (case copyfileobj tar_member tmp_file w1 of
                       Inl e \<Rightarrow>
                         (case unlink_on_close missing_ok tmp_file w1 of
                            Inl e' \<Rightarrow> (Inl e', w1)
                          | Inr w' \<Rightarrow> (Inl e, w'))
                     | Inr w2 \<Rightarrow>
                         (case function [tmp_file] kwargs w2 of
                            (out, w3) \<Rightarrow>
                              (case unlink_on_close missing_ok tmp_file w3 of
                                 Inl e' \<Rightarrow> (Inl e', w3)
                               | Inr w4 \<Rightarrow> (out, w4)))))))"

text \<open>
  The extraction loop of \<^verbatim>\<open>tar_wrapper_multiple\<close> (lines 44-49). The temporary files are
  made with \<^verbatim>\<open>delete=False\<close>: leaving the \<^verbatim>\<open>with\<close> block closes them and nothing more, on
  the normal exit and on an exception alike.
\<close>

fun extract_loop ::
  "archive \<Rightarrow> string list \<Rightarrow> path list \<Rightarrow> world \<Rightarrow> (exn + path list) \<times> world" where
  "extract_loop tar [] tmp_filenames w = (Inr tmp_filenames, w)"
| "extract_loop tar (filename # filenames) tmp_filenames w =
     (case extractfile tar filename of
        Inl e \<Rightarrow> (Inl e, w)
      | Inr tar_member \<Rightarrow>
          (case NamedTemporaryFile w of
             Inl e \<Rightarrow> (Inl e, w)
           | Inr (tmp_file, w1) \<Rightarrow>
               (case copyfileobj tar_member tmp_file w1 of
                  Inl e \<Rightarrow> (Inl e, w1)
                | Inr w2 \<Rightarrow> extract_loop tar filenames (tmp_filenames @ [tmp_file]) w2)))"

text \<open>The \<^verbatim>\<open>finally\<close> loop (lines 55-56): it stops at the first \<^verbatim>\<open>os.remove\<close> that raises.\<close>

fun remove_loop :: "path list \<Rightarrow> world \<Rightarrow> exn option \<times> world" where
  "remove_loop [] w = (None, w)"
| "remove_loop (tmp_file # tmp_filenames) w =
     (case os_remove tmp_file w of
        Inl e \<Rightarrow> (Some e, w)
      | Inr w' \<Rightarrow> remove_loop tmp_filenames w')"

text \<open>
  \<^verbatim>\<open>tar_wrapper_multiple\<close> (lines 34-57). An exception raised in the \<^verbatim>\<open>finally\<close> block
  replaces whatever the \<^verbatim>\<open>try\<close> block produced; with no temporary file the name \<^verbatim>\<open>out\<close>
  is never bound, and \<^verbatim>\<open>return out\<close> raises \<^verbatim>\<open>UnboundLocalError\<close>.
\<close>

definition tar_wrapper_multiple ::
  "(bytes \<rightharpoonup> archive) \<Rightarrow> path \<Rightarrow> string list \<Rightarrow> ('k, 'a) callable \<Rightarrow> 'k \<Rightarrow> world
     \<Rightarrow> (exn + 'a) \<times> world" where
  "tar_wrapper_multiple untar tarpath filenames function kwargs w =
     (case tarfile_open untar w tarpath of
        Inl e \<Rightarrow> (Inl e, w)
      | Inr tar \<Rightarrow>
          (case extract_loop tar filenames [] w of
             (Inl e, w1) \<Rightarrow> (Inl e, w1)
           | (Inr tmp_filenames, w1) \<Rightarrow>
               if tmp_filenames \<noteq> [] then
                 (case function tmp_filenames kwargs w1 of
                    (out, w2) \<Rightarrow>
                      (case remove_loop tmp_filenames w2 of
                         (Some e, w3) \<Rightarrow> (Inl e, w3)
                       | (None, w3) \<Rightarrow> (out, w3)))
               else (Inl UnboundLocalError, w1)))"

section \<open>Strings, paths, the library and tables\<close>

text \<open>
  A Python \<^verbatim>\<open>str\<close> is the list of its code points; a literal of the source, all ASCII,
  is written \<open>ascii ''...''\<close>.
\<close>

type_synonym str = "nat list"

definition ascii :: "string \<Rightarrow> str" where
  "ascii s = map of_char s"

text \<open>
  A \<^verbatim>\<open>pathlib.Path\<close> is its list of parts. \<^verbatim>\<open>path / s\<close> appends the parts of \<^verbatim>\<open>s\<close>, without
  the empty ones and the \<^verbatim>\<open>.\<close> ones; when \<^verbatim>\<open>s\<close> starts with a slash the result is \<^verbatim>\<open>s\<close> alone,
  with the root as its first part (two slashes exactly are a root of their own on
  POSIX). The readers of \<^verbatim>\<open>ramanalysis\<close> accept a \<^verbatim>\<open>Path\<close> object or a \<^verbatim>\<open>str\<close>.
\<close>

fun split_slash :: "str \<Rightarrow> str \<Rightarrow> str list" where
  "split_slash part [] = (if part = [] \<or> part = ascii ''.'' then [] else [part])"
| "split_slash part (c # cs) =
     (if c = of_char CHR ''/''
      then (if part = [] \<or> part = ascii ''.'' then [] else [part]) @ split_slash [] cs
      else split_slash (part @ [c]) cs)"

definition truediv :: "str list \<Rightarrow> str \<Rightarrow> str list" where
  "truediv parts s =
     (if take 1 s = ascii ''/''
      then (if take 2 s = ascii ''//'' \<and> take 3 s \<noteq> ascii ''///'' then ascii ''//'' else ascii ''/'')
             # split_slash [] s
      else parts @ split_slash [] s)"

datatype pathlike = Path "str list" | PathStr str

text \<open>
  \<^verbatim>\<open>DATA_DIRECTORY = REPO_ROOT_DIRECTORY / "data"\<close> (lines 13-14); the repository root,
  \<^verbatim>\<open>Path(__file__).parents[2]\<close>, is the parameter \<open>root\<close>.
\<close>

definition DATA_DIRECTORY :: "str list \<Rightarrow> str list" where
  "DATA_DIRECTORY root = truediv root (ascii ''data'')"

text \<open>
  The part of \<^verbatim>\<open>ramanalysis\<close> that the module calls. The library is not part of this
  repository: its readers, and the constructor of \<^verbatim>\<open>RamanSpectrum\<close>, are parameters, each
  of which returns or raises. \<open>'s\<close> is the spectrum type, \<open>'x\<close> the type of the numbers in
  an array, \<open>'p\<close> the type of the positions of a multipoint scan.
\<close>

record ('s, 'x, 'p) ramanalysis =
  from_horiba_txtfile :: "pathlike \<Rightarrow> exn + 's"
  from_renishaw_txtfile :: "pathlike \<Rightarrow> exn + 's"
  from_wasatch_csvfile :: "pathlike \<Rightarrow> exn + 's"
  from_openraman_csvfiles :: "pathlike \<Rightarrow> pathlike \<Rightarrow> pathlike \<Rightarrow> exn + 's"
  from_generic_csvfile :: "pathlike \<Rightarrow> exn + 's"
  read_renishaw_multipoint_txt :: "pathlike \<Rightarrow> exn + 'x list \<times> 'x list list \<times> 'p"
  RamanSpectrum :: "'x list \<Rightarrow> 'x list \<Rightarrow> exn + 's"

text \<open>Sequencing of calls that may raise: the first exception ends the computation.\<close>

definition bind_exn :: "exn + 'a \<Rightarrow> ('a \<Rightarrow> exn + 'b) \<Rightarrow> exn + 'b" where
  "bind_exn m f = (case m of Inl e \<Rightarrow> Inl e | Inr x \<Rightarrow> f x)"

text \<open>\<^verbatim>\<open>d[key]\<close> on a dict (an association list in insertion order).\<close>

definition getitem :: "('k \<times> 'v) list \<Rightarrow> 'k \<Rightarrow> exn + 'v" where
  "getitem d k = (case map_of d k of None \<Rightarrow> Inl KeyError | Some v \<Rightarrow> Inr v)"

text \<open>
  \<^verbatim>\<open>intensities[0, :]\<close> on a two-dimensional array (a list of rows): the first row,
  \<^verbatim>\<open>IndexError\<close> when there is none.
\<close>

definition first_row :: "'x list list \<Rightarrow> exn + 'x list" where
  "first_row intensities = (case intensities of [] \<Rightarrow> Inl IndexError | r # _ \<Rightarrow> Inr r)"

text \<open>
  A \<^verbatim>\<open>pandas.DataFrame\<close>, as far as the module builds one: the column names and the rows.
  \<^verbatim>\<open>from_records\<close> takes a list of tuples: a tuple shorter than the longest is filled up
  with missing values, and \<^verbatim>\<open>ValueError\<close> is raised when the longest does not have one
  entry per column name. The constructor takes a dict of columns and raises
  \<^verbatim>\<open>ValueError\<close> when they differ in length.
\<close>

datatype cell = Str str | Integer int | Missing

record dataframe =
  columns :: "str list"
  rows :: "cell list list"

definition from_records :: "cell list list \<Rightarrow> str list \<Rightarrow> exn + dataframe" where
  "from_records records cols =
     (let width = foldr max (map length records) 0 in
      if records \<noteq> [] \<and> width \<noteq> length cols then Inl ValueError
      else Inr \<lparr>columns = cols,
                rows = map (\<lambda>r. r @ replicate (width - length r) Missing) records\<rparr>)"

definition DataFrame :: "(str \<times> cell list) list \<Rightarrow> exn + dataframe" where
  "DataFrame data =
     (case map snd data of
        [] \<Rightarrow> Inr \<lparr>columns = [], rows = []\<rparr>
      | c # cs \<Rightarrow>
          if list_all (\<lambda>d. length d = length c) cs
          then Inr \<lparr>columns = map fst data,
                    rows = map (\<lambda>i. map (\<lambda>d. d ! i) (c # cs)) [0..<length c]\<rparr>
          else Inl ValueError)"

text \<open>The column name \<^verbatim>\<open>"\<lambda>_nm"\<close>: the Greek letter is the code point 955.\<close>

definition lambda_nm :: str where
  "lambda_nm = 955 # ascii ''_nm''"

definition record_of :: "str \<times> int \<Rightarrow> cell list" where
  "record_of key = [Str (fst key), Integer (snd key)]"

section \<open>The loaders of the two fixed data sets\<close>

text \<open>The dict \<^verbatim>\<open>filepaths\<close> of \<^verbatim>\<open>load_acetonitrile_spectra\<close> (lines 63-69).\<close>

definition filepaths :: "str list \<Rightarrow> ((str \<times> int) \<times> str list) list" where
  "filepaths root =
     [((ascii ''horiba'', 785),
         truediv (DATA_DIRECTORY root) (ascii ''Horiba_MacroRAM/acetonitrile.txt'')),
      ((ascii ''renishaw'', 785),
         truediv (DATA_DIRECTORY root) (ascii ''Renishaw_Qontor/acetonitrile_5x.txt'')),
      ((ascii ''wasatch'', 785),
         truediv (DATA_DIRECTORY root) (ascii ''Wasatch_WP785X/acetonitrile.csv'')),
      ((ascii ''openraman'', 532),
         truediv (DATA_DIRECTORY root) (ascii ''OpenRAMAN/acetonitrile_n_n_n_solid_10000_0_5.csv'')),
      ((ascii ''wasatch'', 532),
         truediv (DATA_DIRECTORY root) (ascii ''Wasatch_WP532X/acetonitrile.csv''))]"

text \<open>\<^verbatim>\<open>load_acetonitrile_spectra\<close> (lines 60-87).\<close>

definition load_acetonitrile_spectra ::
  "('s, 'x, 'p) ramanalysis \<Rightarrow> str list \<Rightarrow> exn + 's list \<times> dataframe" where
  "load_acetonitrile_spectra L root =
     (let openraman_neon_calibration =
            truediv (DATA_DIRECTORY root) (ascii ''OpenRAMAN/neon_n_n_n_solid_10000_0_5.csv'')
      in
      bind_exn (getitem (filepaths root) (ascii ''horiba'', 785)) (\<lambda>p1.
      bind_exn (from_horiba_txtfile L (Path p1)) (\<lambda>s1.
      bind_exn (getitem (filepaths root) (ascii ''renishaw'', 785)) (\<lambda>p2.
      bind_exn (from_renishaw_txtfile L (Path p2)) (\<lambda>s2.
      bind_exn (getitem (filepaths root) (ascii ''wasatch'', 785)) (\<lambda>p3.
      bind_exn (from_wasatch_csvfile L (Path p3)) (\<lambda>s3.
      bind_exn (getitem (filepaths root) (ascii ''openraman'', 532)) (\<lambda>p4.
      bind_exn (getitem (filepaths root) (ascii ''openraman'', 532)) (\<lambda>p4'.
      bind_exn (from_openraman_csvfiles L (Path p4) (Path openraman_neon_calibration) (Path p4'))
        (\<lambda>s4.
      bind_exn (getitem (filepaths root) (ascii ''wasatch'', 532)) (\<lambda>p5.
      bind_exn (from_generic_csvfile L (Path p5)) (\<lambda>s5.
      bind_exn (from_records (map record_of (map fst (filepaths root)))
                  [ascii ''instrument'', lambda_nm])
        (\<lambda>dataframe.
      Inr ([s1, s2, s3, s4, s5], dataframe))))))))))))))"

text \<open>
  \<^verbatim>\<open>load_cc124_tap_spectra\<close> (lines 90-135). The dict \<^verbatim>\<open>mapped_spectra\<close> is written with
  five different keys, so its keys and values come out in the order written.
\<close>

definition load_cc124_tap_spectra ::
  "('s, 'x, 'p) ramanalysis \<Rightarrow> str list \<Rightarrow> exn + 's list \<times> dataframe" where
  "load_cc124_tap_spectra L root =
     bind_exn (from_horiba_txtfile L
                 (Path (truediv (DATA_DIRECTORY root) (ascii ''Horiba_MacroRAM/CC-124-TAP-2.txt''))))
       (\<lambda>horiba_spectrum.
     bind_exn (from_openraman_csvfiles L
                 (Path (truediv (DATA_DIRECTORY root)
                    (ascii ''OpenRAMAN/CC-124_TAP_Pos-2-000_002.csv'')))
                 (Path (truediv (DATA_DIRECTORY root)
                    (ascii ''OpenRAMAN/neon_n_n_n_solid_10000_0_5.csv'')))
                 (Path (truediv (DATA_DIRECTORY root)
                    (ascii ''OpenRAMAN/acetonitrile_n_n_n_solid_10000_0_5.csv''))))
       (\<lambda>openraman_spectrum.
     bind_exn (read_renishaw_multipoint_txt L
                 (Path (truediv (DATA_DIRECTORY root)
                    (ascii ''Renishaw_Qontor/CC-124_TAP_plate_5x_3_points.txt''))))
       (\<lambda>(wavenumbers_cm1, intensities, positions).
     bind_exn (first_row intensities) (\<lambda>row0.
     bind_exn (RamanSpectrum L wavenumbers_cm1 row0) (\<lambda>renishaw_spectrum.
     bind_exn (from_generic_csvfile L
                 (Path (truediv (DATA_DIRECTORY root)
                    (ascii ''Wasatch_WP532X/CC-124_TAP_Pos-4-002_001.csv''))))
       (\<lambda>wasatch_532_spectrum.
     bind_exn (from_wasatch_csvfile L
                 (Path (truediv (DATA_DIRECTORY root)
                    (ascii ''Wasatch_WP785X/CC-124_TAP_WP-02071.csv''))))
       (\<lambda>wasatch_785_spectrum.
     (let mapped_spectra =
            [((ascii ''horiba'', 785), horiba_spectrum),
             ((ascii ''renishaw'', 785), renishaw_spectrum),
             ((ascii ''wasatch'', 785), wasatch_785_spectrum),
             ((ascii ''openraman'', 532), openraman_spectrum),
             ((ascii ''wasatch'', 532), wasatch_532_spectrum)];
          spectra = map snd mapped_spectra;
          spectrometer_info = map fst mapped_spectra
      in bind_exn (from_records (map record_of spectrometer_info)
                     [ascii ''instrument'', lambda_nm])
           (\<lambda>dataframe. Inr (spectra, dataframe))))))))))"

section \<open>Matching file names\<close>

text \<open>
  \<^verbatim>\<open>fnmatch(name, pat)\<close> for patterns made of \<^verbatim>\<open>*\<close>, \<^verbatim>\<open>?\<close> and ordinary characters (the
  module's pattern has no bracket expression), with names compared as they are
  (\<^verbatim>\<open>os.path.normcase\<close> on POSIX).
\<close>

fun fnmatch :: "str \<Rightarrow> str \<Rightarrow> bool" where
  "fnmatch [] [] = True"
| "fnmatch (c # name) [] = False"
| "fnmatch [] (p # pat) = (p = of_char CHR ''*'' \<and> fnmatch [] pat)"
| "fnmatch (c # name) (p # pat) =
     (if p = of_char CHR ''*'' then fnmatch (c # name) pat \<or> fnmatch name (p # pat)
      else (p = of_char CHR ''?'' \<or> p = c) \<and> fnmatch name pat)"

text \<open>
  \<^verbatim>\<open>\d\<close> in a \<^verbatim>\<open>str\<close> pattern matches the decimal digits of Unicode (category Nd). Among
  the ASCII characters these are \<^verbatim>\<open>0\<close> to \<^verbatim>\<open>9\<close>; beyond them the table of the interpreter's
  version of Unicode decides, which is the parameter \<open>isdecimal\<close>.
\<close>

definition unicode_digit :: "(nat \<Rightarrow> bool) \<Rightarrow> nat \<Rightarrow> bool" where
  "unicode_digit isdecimal c \<longleftrightarrow>
     (of_char CHR ''0'' \<le> c \<and> c \<le> of_char CHR ''9'') \<or> (128 \<le> c \<and> isdecimal c)"

text \<open>
  Regular expressions as \<^verbatim>\<open>re\<close> runs them: a backtracking search that tries the
  alternatives from left to right and the longest repetition first. The matcher returns
  every way to match in the order of the search; a state is the text consumed so far,
  the text that remains and the groups captured. \<^verbatim>\<open>^\<close> holds at the start of the
  string, \<^verbatim>\<open>$\<close> at its end and before a newline that ends it.
\<close>

datatype charset = Range char char | Digit

datatype regex =
    Bol
  | Eol
  | Lit str
  | Set charset
  | Plus charset
  | Seq regex regex
  | Alt regex regex
  | Group regex

fun in_charset :: "(nat \<Rightarrow> bool) \<Rightarrow> charset \<Rightarrow> nat \<Rightarrow> bool" where
  "in_charset isdecimal (Range lo hi) c = (of_char lo \<le> c \<and> c \<le> of_char hi)"
| "in_charset isdecimal Digit c = unicode_digit isdecimal c"

type_synonym mstate = "str \<times> str \<times> str list"

fun rmatch :: "(nat \<Rightarrow> bool) \<Rightarrow> regex \<Rightarrow> mstate \<Rightarrow> mstate list" where
  "rmatch isdecimal Bol (consumed, rest, groups) =
     (if consumed = [] then [(consumed, rest, groups)] else [])"
| "rmatch isdecimal Eol (consumed, rest, groups) =
     (if rest = [] \<or> rest = [10] then [(consumed, rest, groups)] else [])"
| "rmatch isdecimal (Lit s) (consumed, rest, groups) =
     (if take (length s) rest = s then [(consumed @ s, drop (length s) rest, groups)] else [])"
| "rmatch isdecimal (Set cs) (consumed, rest, groups) =
     (case rest of
        [] \<Rightarrow> []
      | c # rest' \<Rightarrow>
          if in_charset isdecimal cs c then [(consumed @ [c], rest', groups)] else [])"
| "rmatch isdecimal (Plus cs) (consumed, rest, groups) =
     map (\<lambda>k. (consumed @ take k rest, drop k rest, groups))
       (rev [1..<Suc (length (takeWhile (in_charset isdecimal cs) rest))])"
| "rmatch isdecimal (Seq r1 r2) st = concat (map (rmatch isdecimal r2) (rmatch isdecimal r1 st))"
| "rmatch isdecimal (Alt r1 r2) st = rmatch isdecimal r1 st @ rmatch isdecimal r2 st"
| "rmatch isdecimal (Group r) (consumed, rest, groups) =
     map (\<lambda>(consumed', rest', groups').
            (consumed', rest', groups'[length groups := drop (length consumed) consumed']))
       (rmatch isdecimal r (consumed, rest, groups @ [[]]))"

text \<open>\<^verbatim>\<open>re.match(pattern, string)\<close> and then \<^verbatim>\<open>match.groups()\<close>: the first match found.\<close>

definition re_match :: "(nat \<Rightarrow> bool) \<Rightarrow> regex \<Rightarrow> str \<Rightarrow> str list option" where
  "re_match isdecimal r s =
     (case rmatch isdecimal r ([], s, []) of
        [] \<Rightarrow> None
      | (consumed, rest, groups) # _ \<Rightarrow> Some groups)"

text \<open>The pattern of line 140 and the regular expression of line 157.\<close>

definition pattern :: str where
  "pattern = ascii ''*-Site_*.csv''"

definition well_site_regex :: regex where
  "well_site_regex =
     Seq Bol
    (Seq (Group (Seq (Set (Range CHR ''A'' CHR ''H''))
                     (Alt (Set (Range CHR ''1'' CHR ''9''))
                          (Seq (Lit (ascii ''1'')) (Set (Range CHR ''0'' CHR ''2''))))))
    (Seq (Lit (ascii ''-Site_''))
    (Seq (Group (Plus Digit))
    (Seq (Lit (ascii ''.csv''))
         Eol))))"

section \<open>Walking a directory\<close>

text \<open>
  A directory: the names of its entries that are not directories, and its subdirectories
  by name, in the order the operating system lists them. A subdirectory that
  \<^verbatim>\<open>os.walk\<close> does not enter (a symbolic link to a directory, a directory that cannot be
  listed) has no tree. \<^verbatim>\<open>os.walk(top)\<close> yields (directory, subdirectory names, file names)
  for the directory at the top first and then for each subdirectory in turn; for a path
  that is not a directory it yields nothing. Paths are joined as \<^verbatim>\<open>posixpath.join\<close> does.
\<close>

datatype dirtree = Dir "str list" "(str \<times> dirtree option) list"

definition os_path_join :: "str \<Rightarrow> str \<Rightarrow> str" where
  "os_path_join a b =
     (if b \<noteq> [] \<and> hd b = of_char CHR ''/'' then b
      else if a = [] \<or> last a = of_char CHR ''/'' then a @ b
      else a @ ascii ''/'' @ b)"

fun os_walk_dir :: "str \<Rightarrow> dirtree \<Rightarrow> (str \<times> str list \<times> str list) list" where
  "os_walk_dir dirpath (Dir filenames subdirs) =
     (dirpath, map fst subdirs, filenames)
       # concat (map (\<lambda>sub. case snd sub of
                                None \<Rightarrow> []
                              | Some d \<Rightarrow> os_walk_dir (os_path_join dirpath (fst sub)) d)
                   subdirs)"

definition os_walk :: "str \<Rightarrow> dirtree option \<Rightarrow> (str \<times> str list \<times> str list) list" where
  "os_walk dirpath tree = (case tree of None \<Rightarrow> [] | Some d \<Rightarrow> os_walk_dir dirpath d)"

section \<open>The loader of a directory of cell spectra\<close>

text \<open>The five lists that \<^verbatim>\<open>load_chlamy_spectra\<close> appends to (lines 143-147).\<close>

record 's chlamy_lists =
  spectra :: "'s list"
  instrument_data :: "str list"
  wavelength_data :: "int list"
  well_id_data :: "str list"
  site_data :: "str list"

text \<open>
  The body of the inner loop (lines 152-168): one file name of one directory.
  \<^verbatim>\<open>well_id, site = match.groups()\<close> unpacks exactly two groups.
\<close>

definition chlamy_file ::
  "(nat \<Rightarrow> bool) \<Rightarrow> ('s, 'x, 'p) ramanalysis \<Rightarrow> str \<Rightarrow> str \<Rightarrow> 's chlamy_lists
     \<Rightarrow> exn + 's chlamy_lists" where
  "chlamy_file isdecimal L root filename acc =
     (if fnmatch filename pattern then
        (let filepath = os_path_join root filename in
         case re_match isdecimal well_site_regex filename of
           None \<Rightarrow> Inr acc
         | Some groups \<Rightarrow>
             (case groups of
                [well_id, site] \<Rightarrow>
                  bind_exn (from_generic_csvfile L (PathStr filepath)) (\<lambda>spectrum.
                    Inr (acc\<lparr>spectra := spectra acc @ [spectrum],
                             instrument_data := instrument_data acc @ [ascii ''wasatch''],
                             wavelength_data := wavelength_data acc @ [785],
                             well_id_data := well_id_data acc @ [well_id],
                             site_data := site_data acc @ [site]\<rparr>))
              | _ \<Rightarrow> Inl ValueError))
      else Inr acc)"

fun chlamy_files ::
  "(nat \<Rightarrow> bool) \<Rightarrow> ('s, 'x, 'p) ramanalysis \<Rightarrow> str \<Rightarrow> str list \<Rightarrow> 's chlamy_lists
     \<Rightarrow> exn + 's chlamy_lists" where
  "chlamy_files isdecimal L root [] acc = Inr acc"
| "chlamy_files isdecimal L root (filename # filenames) acc =
     bind_exn (chlamy_file isdecimal L root filename acc) (chlamy_files isdecimal L root filenames)"

fun chlamy_walk ::
  "(nat \<Rightarrow> bool) \<Rightarrow> ('s, 'x, 'p) ramanalysis \<Rightarrow> (str \<times> str list \<times> str list) list
     \<Rightarrow> 's chlamy_lists \<Rightarrow> exn + 's chlamy_lists" where
  "chlamy_walk isdecimal L [] acc = Inr acc"
| "chlamy_walk isdecimal L ((root, dirnames, filenames) # triples) acc =
     bind_exn (chlamy_files isdecimal L root filenames acc) (chlamy_walk isdecimal L triples)"

text \<open>
  \<^verbatim>\<open>load_chlamy_spectra\<close> (lines 138-178); \<open>tree\<close> is the directory found at
  \<^verbatim>\<open>data_directory\<close>.
\<close>

definition load_chlamy_spectra ::
  "(nat \<Rightarrow> bool) \<Rightarrow> ('s, 'x, 'p) ramanalysis \<Rightarrow> str \<Rightarrow> dirtree option
     \<Rightarrow> exn + 's list \<times> dataframe" where
  "load_chlamy_spectra isdecimal L data_directory tree =
     bind_exn (chlamy_walk isdecimal L (os_walk data_directory tree)
                 \<lparr>spectra = [], instrument_data = [], wavelength_data = [],
                  well_id_data = [], site_data = []\<rparr>)
       (\<lambda>acc.
     bind_exn (DataFrame
                 [(ascii ''instrument'', map Str (instrument_data acc)),
                  (lambda_nm, map Integer (wavelength_data acc)),
                  (ascii ''well_ID'', map Str (well_id_data acc)),
                  (ascii ''site'', map Str (site_data acc))])
       (\<lambda>dataframe. Inr (spectra acc, dataframe)))"

section \<open>The vocabulary of the specification\<close>



text \<open>
  The file names that the specification describes, in its words: a well (a letter A-H
  followed by a number 1-12), then \<^verbatim>\<open>-Site_\<close>, then a digit string (of the digits that
  \<^verbatim>\<open>\d\<close> matches), then \<^verbatim>\<open>.csv\<close>.
\<close>

definition well_numbers :: "string list" where
  "well_numbers = map (\<lambda>digit. [digit]) ''123456789'' @ [''10'', ''11'', ''12'']"

definition is_well_id :: "str \<Rightarrow> bool" where
  "is_well_id well \<longleftrightarrow>
     (\<exists>letter number. letter \<in> set ''ABCDEFGH'' \<and> number \<in> set well_numbers
        \<and> well = ascii (letter # number))"

definition is_site :: "(nat \<Rightarrow> bool) \<Rightarrow> str \<Rightarrow> bool" where
  "is_site isdecimal n \<longleftrightarrow> n \<noteq> [] \<and> (\<forall>c\<in>set n. unicode_digit isdecimal c)"

definition well_site_pattern :: "(nat \<Rightarrow> bool) \<Rightarrow> str \<Rightarrow> bool" where
  "well_site_pattern isdecimal filename \<longleftrightarrow>
     (\<exists>well n. is_well_id well \<and> is_site isdecimal n
        \<and> filename = well @ ascii ''-Site_'' @ n @ ascii ''.csv'')"

text \<open>The two substrings that the regular expression captures from a file name.\<close>

definition well_id_of :: "(nat \<Rightarrow> bool) \<Rightarrow> str \<Rightarrow> str" where
  "well_id_of isdecimal filename =
     (case re_match isdecimal well_site_regex filename of
        Some [well_id, site] \<Rightarrow> well_id
      | _ \<Rightarrow> [])"

definition site_of :: "(nat \<Rightarrow> bool) \<Rightarrow> str \<Rightarrow> str" where
  "site_of isdecimal filename =
     (case re_match isdecimal well_site_regex filename of
        Some [well_id, site] \<Rightarrow> site
      | _ \<Rightarrow> [])"

definition chlamy_row :: "(nat \<Rightarrow> bool) \<Rightarrow> str \<Rightarrow> cell list" where
  "chlamy_row isdecimal filename =
     [Str (ascii ''wasatch''), Integer 785, Str (well_id_of isdecimal filename),
      Str (site_of isdecimal filename)]"

text \<open>
  Every file of the tree with the directory that \<^verbatim>\<open>os.walk\<close> reports it in, in the order
  of the walk; the files among them whose names have the form above; and what the
  reader returns for such a file.
\<close>

definition walked_files :: "str \<Rightarrow> dirtree option \<Rightarrow> (str \<times> str) list" where
  "walked_files data_directory tree =
     concat (map (\<lambda>(dirpath, dirnames, filenames). map (Pair dirpath) filenames)
               (os_walk data_directory tree))"

definition loaded_files :: "(nat \<Rightarrow> bool) \<Rightarrow> str \<Rightarrow> dirtree option \<Rightarrow> (str \<times> str) list" where
  "loaded_files isdecimal data_directory tree =
     filter (\<lambda>(dirpath, filename). well_site_pattern isdecimal filename)
       (walked_files data_directory tree)"

definition read_file :: "('s, 'x, 'p) ramanalysis \<Rightarrow> str \<times> str \<Rightarrow> exn + 's" where
  "read_file L file = from_generic_csvfile L (PathStr (os_path_join (fst file) (snd file)))"

text \<open>The results of a list of calls, or the first exception among them.\<close>

fun collect :: "(exn + 'a) list \<Rightarrow> exn + 'a list" where
  "collect [] = Inr []"
| "collect (m # ms) = bind_exn m (\<lambda>x. bind_exn (collect ms) (\<lambda>xs. Inr (x # xs)))"

text \<open>The five lists after the files \<open>filenames\<close> have given the spectra \<open>ss\<close>.\<close>

definition appended ::
  "(nat \<Rightarrow> bool) \<Rightarrow> 's chlamy_lists \<Rightarrow> 's list \<Rightarrow> str list \<Rightarrow> 's chlamy_lists" where
  "appended isdecimal acc ss filenames =
     acc\<lparr>spectra := spectra acc @ ss,
         instrument_data := instrument_data acc @ map (\<lambda>f. ascii ''wasatch'') filenames,
         wavelength_data := wavelength_data acc @ map (\<lambda>f. 785) filenames,
         well_id_data := well_id_data acc @ map (well_id_of isdecimal) filenames,
         site_data := site_data acc @ map (site_of isdecimal) filenames\<rparr>"

section \<open>Concrete inputs\<close>

text \<open>
  An archive with two data files and a member without data, a disk that holds it as
  \<^verbatim>\<open>data.tar\<close>, and two callables: one reads the files it is given (the keyword argument
  says how many bytes of each), one deletes them and returns how many there were.
\<close>

definition example_archive :: archive where
  "example_archive =
     [''a.csv'' \<mapsto> RegularFile ''1,2'', ''b.csv'' \<mapsto> RegularFile ''3,4'', ''raw'' \<mapsto> NoData]"

definition example_untar :: "bytes \<rightharpoonup> archive" where
  "example_untar = [''TAR'' \<mapsto> example_archive]"

definition example_world :: world where
  "example_world =
     \<lparr>files = [''data.tar'' \<mapsto> ''TAR''],
      candidate_names = (\<lambda>i. ''tmp'' @ replicate i CHR ''x''),
      tmp_max = 10000\<rparr>"

definition read_paths :: "(nat, bytes list) callable" where
  "read_paths paths n w =
     (case those (map (files w) paths) of
        None \<Rightarrow> (Inl FileNotFoundError, w)
      | Some contents \<Rightarrow> (Inr (map (take n) contents), w))"

definition consume_paths :: "(nat, nat) callable" where
  "consume_paths paths n w =
     (Inr (length paths), w\<lparr>files := (\<lambda>p. if p \<in> set paths then None else files w p)\<rparr>)"

text \<open>
  The same disk where the first name that \<^verbatim>\<open>tempfile\<close> draws already belongs to a file.
\<close>

definition busy_world :: world where
  "busy_world =
     \<lparr>files = [''data.tar'' \<mapsto> ''TAR'', ''tmp'' \<mapsto> ''old''],
      candidate_names = (\<lambda>i. ''tmp'' @ replicate i CHR ''x''),
      tmp_max = 10000\<rparr>"

text \<open>
  A disk on which every name that \<^verbatim>\<open>tempfile\<close> draws is already taken.
\<close>

definition crowded_world :: world where
  "crowded_world =
     \<lparr>files = [''data.tar'' \<mapsto> ''TAR''], candidate_names = (\<lambda>i. ''data.tar''), tmp_max = 3\<rparr>"

text \<open>
  A library whose readers return the name of the reader and the files they were given,
  a scan of three points, the Arabic-Indic digits as the decimal digits beyond ASCII, and
  a directory with a subdirectory and a link to a directory.
\<close>

datatype example_spectrum = FromFile string "pathlike list" | FromArrays "nat list" "nat list"

definition example_library :: "(example_spectrum, nat, unit) ramanalysis" where
  "example_library =
     \<lparr>from_horiba_txtfile = (\<lambda>p. Inr (FromFile ''horiba_txt'' [p])),
      from_renishaw_txtfile = (\<lambda>p. Inr (FromFile ''renishaw_txt'' [p])),
      from_wasatch_csvfile = (\<lambda>p. Inr (FromFile ''wasatch_csv'' [p])),
      from_openraman_csvfiles =
        (\<lambda>p neon acetonitrile. Inr (FromFile ''openraman_csv'' [p, neon, acetonitrile])),
      from_generic_csvfile = (\<lambda>p. Inr (FromFile ''generic_csv'' [p])),
      read_renishaw_multipoint_txt = (\<lambda>p. Inr ([100, 200], [[1, 2], [3, 4], [5, 6]], ())),
      RamanSpectrum = (\<lambda>wavenumbers_cm1 intensities.
         if length wavenumbers_cm1 = length intensities
         then Inr (FromArrays wavenumbers_cm1 intensities) else Inl ValueError)\<rparr>"

definition example_isdecimal :: "nat \<Rightarrow> bool" where
  "example_isdecimal c \<longleftrightarrow> 1632 \<le> c \<and> c \<le> 1641"

definition example_tree :: dirtree where
  "example_tree =
     Dir [ascii ''A1-Site_1.csv'', ascii ''notes.txt'', ascii ''I1-Site_2.csv'']
         [(ascii ''linked'', None),
          (ascii ''plate2'',
           Some (Dir [ascii ''H12-Site_03.csv'', ascii ''A13-Site_1.csv'',
                      ascii ''B7-Site_'' @ [1636, 1634] @ ascii ''.csv''] []))]"

lemmas example_defs =
  example_world_def example_untar_def example_archive_def read_paths_def consume_paths_def
  crowded_world_def busy_world_def

lemmas tar_defs =
  tarfile_open_def extractfile_def NamedTemporaryFile_def copyfileobj_def os_remove_def
  unlink_on_close_def

section \<open>Temporary files\<close>

text \<open>
  What \<^verbatim>\<open>tempfile\<close> returns: a name that was free, and \<^verbatim>\<open>FileExistsError\<close> as the only
  failure. It returns the first free candidate, and it finds one whenever the candidate
  names are pairwise different and fewer than \<^verbatim>\<open>TMP_MAX\<close> files exist.
\<close>

lemma mkstemp_inner_free:
  "mkstemp_inner seq w = Inr k \<Longrightarrow> files w (candidate_names w k) = None"
proof (induction seq w rule: mkstemp_inner.induct)
  case (1 seq w)
  from "1.prems" show ?case
    by (subst (asm) mkstemp_inner.simps) (auto split: if_splits intro: "1.IH")
qed

lemma mkstemp_inner_Inl:
  "mkstemp_inner seq w = Inl e \<Longrightarrow> e = FileExistsError"
proof (induction seq w rule: mkstemp_inner.induct)
  case (1 seq w)
  from "1.prems" show ?case
    by (subst (asm) mkstemp_inner.simps) (auto split: if_splits intro: "1.IH")
qed




lemma NamedTemporaryFile_Inr:
  "NamedTemporaryFile w = Inr (tmp_file, w1)
     \<Longrightarrow> files w tmp_file = None \<and> files w1 = (files w)(tmp_file \<mapsto> [])"
  by (auto simp: NamedTemporaryFile_def split: sum.splits dest: mkstemp_inner_free)

lemma NamedTemporaryFile_Inl:
  "NamedTemporaryFile w = Inl e \<Longrightarrow> e = FileExistsError"
  by (auto simp: NamedTemporaryFile_def split: sum.splits dest: mkstemp_inner_Inl)





section \<open>The archive helpers: extraction and cleanup\<close>




text \<open>
  Every exit of \<^verbatim>\<open>tar_wrapper_single\<close> that comes after the temporary file was made leaves
  the disk without it.
\<close>

lemma tar_wrapper_single_leaves_no_temporary_file:
  "NamedTemporaryFile w = Inr (tmp_file, w1)
     \<Longrightarrow> files (snd (tar_wrapper_single missing_ok untar tarpath filename function kwargs w))
           tmp_file = None"
  by (auto simp: tar_wrapper_single_def unlink_on_close_def copyfileobj_def
        split: sum.splits prod.splits option.splits if_splits dest: NamedTemporaryFile_Inr)







text \<open>
  C7 at a list whose second name is not in the archive: the first member is extracted
  to \<^verbatim>\<open>tmp\<close>, \<^verbatim>\<open>extractfile\<close> raises \<^verbatim>\<open>KeyError\<close> for the second, and the call ends
  with \<^verbatim>\<open>tmp\<close> still on disk (it was not there before). The \<^verbatim>\<open>finally\<close> block that
  removes the temporary files is only reached once the loop is over.
\<close>

theorem tar_wrapper_multiple_leaks_temporary_file:
  "fst (tar_wrapper_multiple example_untar ''data.tar'' [''b.csv'', ''c.csv''] read_paths 2
          example_world) = Inl KeyError
   \<and> files example_world ''tmp'' = None
   \<and> files (snd (tar_wrapper_multiple example_untar ''data.tar'' [''b.csv'', ''c.csv'']
                   read_paths 2 example_world)) ''tmp'' = Some ''3,4''"
  by (simp add: tar_wrapper_multiple_def tar_defs example_defs mkstemp_inner.simps)

text \<open>
  C8: with an empty list of filenames the call raises, whatever the function is (the
  result does not depend on it, and the filesystem is as before); and whenever the
  call returns a value, the list of filenames was not empty.
\<close>

theorem tar_wrapper_multiple_empty_raises:
  "tar_wrapper_multiple untar tarpath [] function kwargs w =
     (Inl (case tarfile_open untar w tarpath of Inl e \<Rightarrow> e | Inr tar \<Rightarrow> UnboundLocalError), w)
   \<and> (\<forall>filenames v w'.
         tar_wrapper_multiple untar tarpath filenames function kwargs w = (Inr v, w')
           \<longrightarrow> filenames \<noteq> [])"
  by (auto simp: tar_wrapper_multiple_def split: sum.splits)

theorem tar_wrapper_multiple_empty_raises_witness:
  "tar_wrapper_multiple example_untar ''data.tar'' [] read_paths 2 example_world =
     (Inl UnboundLocalError, example_world)
   \<and> fst (tar_wrapper_multiple example_untar ''data.tar'' [''b.csv'', ''a.csv''] read_paths 2
          example_world) = Inr [''3,'', ''1,'']
   \<and> [''b.csv'', ''a.csv''] \<noteq> ([] :: string list)"
proof -
  have run: "fst (tar_wrapper_multiple example_untar ''data.tar'' [''b.csv'', ''a.csv''] read_paths 2
          example_world) = Inr [''3,'', ''1,'']"
    by (simp add: tar_wrapper_multiple_def tar_defs example_defs mkstemp_inner.simps)
  have opened: "tarfile_open example_untar example_world ''data.tar'' = Inr example_archive"
    by (simp add: tarfile_open_def example_defs)
  from run obtain w' where
    "tar_wrapper_multiple example_untar ''data.tar'' [''b.csv'', ''a.csv''] read_paths 2
       example_world = (Inr [''3,'', ''1,''], w')"
    by (metis prod.collapse)
  with tar_wrapper_multiple_empty_raises
         [of example_untar "''data.tar''" read_paths 2 example_world]
  show ?thesis
    using run opened by simp
qed

section \<open>What the regular expression matches\<close>

text \<open>
  The character classes of the expression, and the states that each construct of the
  matcher reaches.
\<close>

lemma ascii_simps [simp]:
  "ascii [] = []"
  "ascii (c # s) = of_char c # ascii s"
  "ascii (s @ t) = ascii s @ ascii t"
  by (simp_all add: ascii_def)

lemma in_charset_A_H:
  "in_charset isdecimal (Range CHR ''A'' CHR ''H'') c \<longleftrightarrow> c \<in> set (ascii ''ABCDEFGH'')"
proof -
  have "(65 \<le> c \<and> c \<le> 72)
          \<longleftrightarrow> (c = 65 \<or> c = 66 \<or> c = 67 \<or> c = 68 \<or> c = 69 \<or> c = 70 \<or> c = 71 \<or> c = (72::nat))"
    by arith
  then show ?thesis
    by simp
qed

lemma in_charset_1_9:
  "in_charset isdecimal (Range CHR ''1'' CHR ''9'') c \<longleftrightarrow> c \<in> set (ascii ''123456789'')"
proof -
  have "(49 \<le> c \<and> c \<le> 57)
          \<longleftrightarrow> (c = 49 \<or> c = 50 \<or> c = 51 \<or> c = 52 \<or> c = 53 \<or> c = 54 \<or> c = 55 \<or> c = 56
                \<or> c = (57::nat))"
    by arith
  then show ?thesis
    by simp
qed

lemma in_charset_0_2:
  "in_charset isdecimal (Range CHR ''0'' CHR ''2'') c \<longleftrightarrow> c \<in> set (ascii ''012'')"
proof -
  have "(48 \<le> c \<and> c \<le> 50) \<longleftrightarrow> (c = 48 \<or> c = 49 \<or> c = (50::nat))"
    by arith
  then show ?thesis
    by simp
qed

lemma rmatch_Bol_iff:
  "(c', r', g') \<in> set (rmatch isdecimal Bol (c, r, g)) \<longleftrightarrow> c = [] \<and> c' = c \<and> r' = r \<and> g' = g"
  by auto

lemma rmatch_Eol_iff:
  "(c', r', g') \<in> set (rmatch isdecimal Eol (c, r, g))
     \<longleftrightarrow> (r = [] \<or> r = [10]) \<and> c' = c \<and> r' = r \<and> g' = g"
  by auto

lemma rmatch_Lit_iff:
  "(c', r', g') \<in> set (rmatch isdecimal (Lit s) (c, r, g))
     \<longleftrightarrow> r = s @ r' \<and> c' = c @ s \<and> g' = g"
  by (auto simp: append_eq_conv_conj) (metis append_take_drop_id)

lemma rmatch_Set_iff:
  "(c', r', g') \<in> set (rmatch isdecimal (Set cs) (c, r, g))
     \<longleftrightarrow> (\<exists>x. in_charset isdecimal cs x \<and> r = x # r' \<and> c' = c @ [x] \<and> g' = g)"
  by (auto split: list.splits)

lemma all_take_takeWhile:
  "(\<forall>x\<in>set (take k r). P x) \<longleftrightarrow> k \<le> length (takeWhile P r) \<or> length r \<le> length (takeWhile P r)"
proof (induction r arbitrary: k)
  case Nil
  then show ?case by simp
next
  case (Cons a r)
  then show ?case by (cases k) auto
qed

lemma rmatch_Plus_iff:
  "(c', r', g') \<in> set (rmatch isdecimal (Plus cs) (c, r, g))
     \<longleftrightarrow> (\<exists>xs. xs \<noteq> [] \<and> (\<forall>x\<in>set xs. in_charset isdecimal cs x) \<and> r = xs @ r'
            \<and> c' = c @ xs \<and> g' = g)"
  (is "?lhs \<longleftrightarrow> ?rhs")
proof
  assume ?lhs
  then obtain k where k: "1 \<le> k" "k \<le> length (takeWhile (in_charset isdecimal cs) r)"
    and res: "c' = c @ take k r" "r' = drop k r" "g' = g"
    by auto
  have "length (takeWhile (in_charset isdecimal cs) r) \<le> length r"
    by (rule length_takeWhile_le)
  with k have "take k r \<noteq> []" by auto
  moreover have "\<forall>x\<in>set (take k r). in_charset isdecimal cs x"
    using k by (simp add: all_take_takeWhile)
  ultimately show ?rhs
    using res by (intro exI [of _ "take k r"]) simp
next
  assume ?rhs
  then obtain xs where xs: "xs \<noteq> []" "\<forall>x\<in>set xs. in_charset isdecimal cs x" "r = xs @ r'"
      "c' = c @ xs" "g' = g"
    by blast
  have "length xs \<le> length (takeWhile (in_charset isdecimal cs) r)"
    using xs(2,3) by (simp add: takeWhile_append2)
  moreover have "1 \<le> length xs" using xs(1) by (cases xs) auto
  ultimately have
    "length xs \<in> set (rev [1..<Suc (length (takeWhile (in_charset isdecimal cs) r))])"
    by auto
  then have "(c @ take (length xs) r, drop (length xs) r, g)
               \<in> set (rmatch isdecimal (Plus cs) (c, r, g))"
    by (simp del: set_rev set_upt)
  then show ?lhs
    using xs by simp
qed

lemma rmatch_Seq_iff:
  "st' \<in> set (rmatch isdecimal (Seq r1 r2) st)
     \<longleftrightarrow> (\<exists>cm rm gm. (cm, rm, gm) \<in> set (rmatch isdecimal r1 st)
            \<and> st' \<in> set (rmatch isdecimal r2 (cm, rm, gm)))"
  by auto

lemma rmatch_Alt_iff:
  "st' \<in> set (rmatch isdecimal (Alt r1 r2) st)
     \<longleftrightarrow> st' \<in> set (rmatch isdecimal r1 st) \<or> st' \<in> set (rmatch isdecimal r2 st)"
  by simp

lemma rmatch_Group_iff:
  "(c', r', g') \<in> set (rmatch isdecimal (Group R) (c, r, g))
     \<longleftrightarrow> (\<exists>g''. (c', r', g'') \<in> set (rmatch isdecimal R (c, r, g @ [[]]))
            \<and> g' = g''[length g := drop (length c) c'])"
  by force

text \<open>
  The first group matches exactly the wells, the second exactly the non-empty digit
  strings; the whole expression matches a well, \<^verbatim>\<open>-Site_\<close>, a digit string and \<^verbatim>\<open>.csv\<close>,
  with nothing or one newline after it.
\<close>

lemma well_numbers_iff:
  "number \<in> set well_numbers \<longleftrightarrow>
     (\<exists>d. d \<in> set ''123456789'' \<and> number = [d])
   \<or> (\<exists>e. e \<in> set ''012'' \<and> number = [CHR ''1'', e])"
  unfolding well_numbers_def by auto

lemma ex_ascii:
  "(\<exists>x. x \<in> set (ascii s) \<and> P x) \<longleftrightarrow> (\<exists>c. c \<in> set s \<and> P (of_char c))"
  by (auto simp: ascii_def)

lemma ascii_numbers_iff:
  "(\<exists>number. number \<in> set well_numbers \<and> rest = ascii number) \<longleftrightarrow>
     (\<exists>d. d \<in> set (ascii ''123456789'') \<and> rest = [d])
   \<or> (\<exists>e. e \<in> set (ascii ''012'') \<and> rest = [49, e])"
proof -
  have one: "ascii [d] = [of_char d]" for d
    by simp
  have two: "ascii [CHR ''1'', e] = [49, of_char e]" for e
    by simp
  have "(\<exists>number. number \<in> set well_numbers \<and> rest = ascii number) \<longleftrightarrow>
     (\<exists>d. d \<in> set ''123456789'' \<and> rest = ascii [d])
   \<or> (\<exists>e. e \<in> set ''012'' \<and> rest = ascii [CHR ''1'', e])"
    unfolding well_numbers_iff by blast
  then show ?thesis
    unfolding ex_ascii one two .
qed

lemma well_ids_iff:
  "is_well_id well \<longleftrightarrow>
     (\<exists>letter. letter \<in> set (ascii ''ABCDEFGH'')
        \<and> ((\<exists>d. d \<in> set (ascii ''123456789'') \<and> well = [letter, d])
           \<or> (\<exists>e. e \<in> set (ascii ''012'') \<and> well = [letter, 49, e])))"
  (is "?lhs \<longleftrightarrow> ?rhs")
proof -
  have "?lhs \<longleftrightarrow> (\<exists>letter. letter \<in> set ''ABCDEFGH''
          \<and> (\<exists>rest. (\<exists>number. number \<in> set well_numbers \<and> rest = ascii number)
                \<and> well = of_char letter # rest))"
    unfolding is_well_id_def ascii_simps(2) by blast
  also have "\<dots> \<longleftrightarrow> (\<exists>l. l \<in> set (ascii ''ABCDEFGH'')
          \<and> (\<exists>rest. (\<exists>number. number \<in> set well_numbers \<and> rest = ascii number)
                \<and> well = l # rest))"
    unfolding ex_ascii ..
  also have "\<dots> \<longleftrightarrow> ?rhs"
    unfolding ascii_numbers_iff by blast
  finally show ?thesis .
qed

lemma well_id_charset:
  "is_well_id well \<longleftrightarrow>
     (\<exists>letter. in_charset isdecimal (Range CHR ''A'' CHR ''H'') letter
        \<and> ((\<exists>d. in_charset isdecimal (Range CHR ''1'' CHR ''9'') d \<and> well = [letter, d])
           \<or> (\<exists>e. in_charset isdecimal (Range CHR ''0'' CHR ''2'') e \<and> well = [letter, 49, e])))"
  unfolding well_ids_iff in_charset_A_H in_charset_1_9 in_charset_0_2 ..

lemma well_inner_iff:
  "(c', r', g') \<in> set (rmatch isdecimal (Seq (Set (Range CHR ''A'' CHR ''H''))
                     (Alt (Set (Range CHR ''1'' CHR ''9''))
                          (Seq (Lit (ascii ''1'')) (Set (Range CHR ''0'' CHR ''2''))))) (c, r, g))
   \<longleftrightarrow> (\<exists>well. is_well_id well \<and> r = well @ r' \<and> c' = c @ well \<and> g' = g)"
  unfolding well_id_charset [of _ isdecimal] rmatch_Seq_iff rmatch_Alt_iff rmatch_Set_iff
    rmatch_Lit_iff
  by (auto simp del: in_charset.simps)

lemma well_group_iff:
  "(c', r', g') \<in> set (rmatch isdecimal (Group (Seq (Set (Range CHR ''A'' CHR ''H''))
                     (Alt (Set (Range CHR ''1'' CHR ''9''))
                          (Seq (Lit (ascii ''1'')) (Set (Range CHR ''0'' CHR ''2'')))))) (c, r, g))
   \<longleftrightarrow> (\<exists>well. is_well_id well \<and> r = well @ r' \<and> c' = c @ well \<and> g' = g @ [well])"
  unfolding rmatch_Group_iff well_inner_iff
  by auto

lemma site_group_iff:
  "(c', r', g') \<in> set (rmatch isdecimal (Group (Plus Digit)) (c, r, g))
   \<longleftrightarrow> (\<exists>site. is_site isdecimal site \<and> r = site @ r' \<and> c' = c @ site \<and> g' = g @ [site])"
  unfolding rmatch_Group_iff rmatch_Plus_iff is_site_def in_charset.simps(2) [symmetric]
  by (auto simp del: in_charset.simps)

lemma well_site_regex_iff:
  "(c', r', g') \<in> set (rmatch isdecimal well_site_regex ([], filename, []))
   \<longleftrightarrow> (\<exists>well site.
          is_well_id well \<and> is_site isdecimal site
        \<and> filename = well @ ascii ''-Site_'' @ site @ ascii ''.csv'' @ r'
        \<and> (r' = [] \<or> r' = [10])
        \<and> c' = well @ ascii ''-Site_'' @ site @ ascii ''.csv'' \<and> g' = [well, site])"
  unfolding well_site_regex_def rmatch_Seq_iff well_group_iff site_group_iff
    rmatch_Bol_iff rmatch_Eol_iff rmatch_Lit_iff
  by auto

text \<open>
  A file name splits into well and site in one way only, so the groups of the first
  match are the well and the site.
\<close>

lemma split_at_first:
  "a @ x # b = a' @ x # b' \<Longrightarrow> x \<notin> set a \<Longrightarrow> x \<notin> set a' \<Longrightarrow> a = a' \<and> b = b'"
proof (induction a arbitrary: a')
  case Nil
  then show ?case by (cases a') auto
next
  case (Cons y a)
  then show ?case by (cases a') auto
qed

lemma well_id_no_dash:
  "is_well_id well \<Longrightarrow> 45 \<notin> set well"
  unfolding well_id_charset [of _ "\<lambda>c. False"] by auto

lemma site_no_dot:
  assumes "is_site isdecimal site"
  shows "46 \<notin> set site"
proof
  assume "46 \<in> set site"
  with assms have "unicode_digit isdecimal 46"
    unfolding is_site_def by blast
  then show False
    by (simp add: unicode_digit_def)
qed

lemma well_site_unique:
  assumes "well @ ascii ''-Site_'' @ site @ ascii ''.csv'' @ nl
             = well' @ ascii ''-Site_'' @ site' @ ascii ''.csv'' @ nl'"
    and "is_well_id well" "is_well_id well'"
    and "is_site isdecimal site" "is_site isdecimal site'"
  shows "well = well' \<and> site = site' \<and> nl = nl'"
proof -
  from assms(1) have
    "well @ 45 # (ascii ''Site_'' @ site @ ascii ''.csv'' @ nl)
       = well' @ 45 # (ascii ''Site_'' @ site' @ ascii ''.csv'' @ nl')"
    by simp
  from split_at_first [OF this well_id_no_dash [OF assms(2)] well_id_no_dash [OF assms(3)]]
  have well: "well = well'"
    and "site @ 46 # (ascii ''csv'' @ nl) = site' @ 46 # (ascii ''csv'' @ nl')"
    by simp_all
  from split_at_first [OF this(2) site_no_dot [OF assms(4)] site_no_dot [OF assms(5)]]
  show ?thesis
    using well by simp
qed

lemma re_match_well_site_regex:
  "re_match isdecimal well_site_regex filename = Some groups
   \<longleftrightarrow> (\<exists>well site nl.
          is_well_id well \<and> is_site isdecimal site
        \<and> filename = well @ ascii ''-Site_'' @ site @ ascii ''.csv'' @ nl
        \<and> (nl = [] \<or> nl = [10])
        \<and> groups = [well, site])"
  (is "?lhs \<longleftrightarrow> ?rhs")
proof
  assume ?lhs
  then obtain c' r' rest where
    "rmatch isdecimal well_site_regex ([], filename, []) = (c', r', groups) # rest"
    by (auto simp: re_match_def split: list.splits)
  then have "(c', r', groups) \<in> set (rmatch isdecimal well_site_regex ([], filename, []))"
    by simp
  then show ?rhs
    unfolding well_site_regex_iff by blast
next
  assume ?rhs
  then obtain well site nl where
    w: "is_well_id well" and s: "is_site isdecimal site" and
    f: "filename = well @ ascii ''-Site_'' @ site @ ascii ''.csv'' @ nl" and
    nl: "nl = [] \<or> nl = [10]" and
    g: "groups = [well, site]"
    by blast
  then have "(well @ ascii ''-Site_'' @ site @ ascii ''.csv'', nl, [well, site])
      \<in> set (rmatch isdecimal well_site_regex ([], filename, []))"
    unfolding well_site_regex_iff by blast
  then obtain c' r' g' rest where
    first: "rmatch isdecimal well_site_regex ([], filename, []) = (c', r', g') # rest"
    by (cases "rmatch isdecimal well_site_regex ([], filename, [])") auto
  then have "(c', r', g') \<in> set (rmatch isdecimal well_site_regex ([], filename, []))"
    by simp
  then obtain well' site' where
    "is_well_id well'" "is_site isdecimal site'"
    "filename = well' @ ascii ''-Site_'' @ site' @ ascii ''.csv'' @ r'" "g' = [well', site']"
    unfolding well_site_regex_iff by blast
  with well_site_unique [of well site nl well' site' r' isdecimal] w s f
  have "g' = [well, site]"
    by simp
  with first g show ?lhs
    by (simp add: re_match_def)
qed

section \<open>What the shell pattern matches\<close>

lemma fnmatch_Nil [simp]:
  "fnmatch name [] \<longleftrightarrow> name = []"
  by (cases name) auto

lemma fnmatch_star:
  "fnmatch name (42 # pat) \<longleftrightarrow> (\<exists>a b. name = a @ b \<and> fnmatch b pat)"
proof (induction name)
  case Nil
  then show ?case by simp
next
  case (Cons c name)
  have "fnmatch (c # name) (42 # pat)
          \<longleftrightarrow> fnmatch (c # name) pat \<or> fnmatch name (42 # pat)"
    by simp
  also have "\<dots> \<longleftrightarrow> fnmatch (c # name) pat \<or> (\<exists>a b. name = a @ b \<and> fnmatch b pat)"
    using Cons.IH by simp
  also have "\<dots> \<longleftrightarrow> (\<exists>a b. c # name = a @ b \<and> fnmatch b pat)"
    by (auto simp: Cons_eq_append_conv)
  finally show ?case .
qed

lemma fnmatch_char:
  "p \<noteq> 42 \<Longrightarrow> p \<noteq> 63
     \<Longrightarrow> fnmatch name (p # pat) \<longleftrightarrow> (\<exists>b. name = p # b \<and> fnmatch b pat)"
  by (cases name) auto

lemma fnmatch_lit:
  "42 \<notin> set lit \<Longrightarrow> 63 \<notin> set lit
     \<Longrightarrow> fnmatch name (lit @ pat) \<longleftrightarrow> (\<exists>b. name = lit @ b \<and> fnmatch b pat)"
proof (induction lit arbitrary: name)
  case Nil
  then show ?case by simp
next
  case (Cons p lit)
  from Cons.prems have p: "p \<noteq> 42" "p \<noteq> 63"
    and lit: "42 \<notin> set lit" "63 \<notin> set lit"
    by auto
  have "fnmatch name (p # (lit @ pat)) \<longleftrightarrow> (\<exists>b. name = p # b \<and> fnmatch b (lit @ pat))"
    by (rule fnmatch_char [OF p])
  also have "\<dots> \<longleftrightarrow> (\<exists>b. name = p # b \<and> (\<exists>b'. b = lit @ b' \<and> fnmatch b' pat))"
    unfolding Cons.IH [OF lit] ..
  also have "\<dots> \<longleftrightarrow> (\<exists>b'. name = (p # lit) @ b' \<and> fnmatch b' pat)"
    by auto
  finally show ?case
    by simp
qed

lemma fnmatch_pattern:
  "fnmatch name pattern \<longleftrightarrow> (\<exists>a b. name = a @ ascii ''-Site_'' @ b @ ascii ''.csv'')"
proof -
  have p: "pattern = 42 # (ascii ''-Site_'' @ (42 # (ascii ''.csv'' @ [])))"
    by (simp add: pattern_def)
  have lit1: "fnmatch b (ascii ''-Site_'' @ pat)
                \<longleftrightarrow> (\<exists>c. b = ascii ''-Site_'' @ c \<and> fnmatch c pat)" for b pat
    by (rule fnmatch_lit) simp_all
  have lit2: "fnmatch b (ascii ''.csv'' @ pat)
                \<longleftrightarrow> (\<exists>c. b = ascii ''.csv'' @ c \<and> fnmatch c pat)" for b pat
    by (rule fnmatch_lit) simp_all
  have "fnmatch name pattern \<longleftrightarrow>
      (\<exists>a b. name = a @ b \<and> (\<exists>c. b = ascii ''-Site_'' @ c
         \<and> (\<exists>a' b'. c = a' @ b' \<and> (\<exists>d. b' = ascii ''.csv'' @ d \<and> d = []))))"
    unfolding p fnmatch_star lit1 lit2 fnmatch_Nil ..
  also have "\<dots> \<longleftrightarrow> (\<exists>a b. name = a @ ascii ''-Site_'' @ b @ ascii ''.csv'')"
  proof
    assume "\<exists>a b. name = a @ b \<and> (\<exists>c. b = ascii ''-Site_'' @ c
         \<and> (\<exists>a' b'. c = a' @ b' \<and> (\<exists>d. b' = ascii ''.csv'' @ d \<and> d = [])))"
    then obtain a b c a' b' d where
      "name = a @ b" "b = ascii ''-Site_'' @ c" "c = a' @ b'" "b' = ascii ''.csv'' @ d" "d = []"
      by blast
    then have "name = a @ ascii ''-Site_'' @ a' @ ascii ''.csv''"
      by simp
    then show "\<exists>a b. name = a @ ascii ''-Site_'' @ b @ ascii ''.csv''"
      by (intro exI)
  next
    assume "\<exists>a b. name = a @ ascii ''-Site_'' @ b @ ascii ''.csv''"
    then obtain a b where name: "name = a @ ascii ''-Site_'' @ b @ ascii ''.csv''"
      by (elim exE)
    show "\<exists>a b. name = a @ b \<and> (\<exists>c. b = ascii ''-Site_'' @ c
         \<and> (\<exists>a' b'. c = a' @ b' \<and> (\<exists>d. b' = ascii ''.csv'' @ d \<and> d = [])))"
      apply (rule exI [of _ a])
      apply (rule exI [of _ "ascii ''-Site_'' @ b @ ascii ''.csv''"])
      apply (rule conjI [OF name])
      apply (rule exI [of _ "b @ ascii ''.csv''"])
      apply (rule conjI [OF refl])
      apply (rule exI [of _ b])
      apply (rule exI [of _ "ascii ''.csv''"])
      apply (rule conjI [OF refl])
      apply (rule exI [of _ "[]"])
      apply simp
      done
  qed
  finally show ?thesis .
qed

text \<open>
  A name passes both tests of the loop exactly when it is a well, \<^verbatim>\<open>-Site_\<close>, a digit
  string and \<^verbatim>\<open>.csv\<close>: the shell pattern rejects the trailing newline that the regular
  expression alone lets through.
\<close>

lemma accepted_iff:
  "fnmatch filename pattern \<and> re_match isdecimal well_site_regex filename = Some groups
   \<longleftrightarrow> (\<exists>well site.
          is_well_id well \<and> is_site isdecimal site
        \<and> filename = well @ ascii ''-Site_'' @ site @ ascii ''.csv''
        \<and> groups = [well, site])"
  (is "?lhs \<longleftrightarrow> ?rhs")
proof
  assume lhs: ?lhs
  then obtain well site nl where
    *: "is_well_id well" "is_site isdecimal site"
       "filename = well @ ascii ''-Site_'' @ site @ ascii ''.csv'' @ nl" "nl = [] \<or> nl = [10]"
       "groups = [well, site]"
    unfolding re_match_well_site_regex by blast
  from lhs obtain a b where "filename = a @ ascii ''-Site_'' @ b @ ascii ''.csv''"
    unfolding fnmatch_pattern by blast
  then have "last filename = 118"
    by simp
  with *(3,4) have "nl = []"
    by auto
  with * show ?rhs
    by auto
next
  assume ?rhs
  then obtain well site where
    *: "is_well_id well" "is_site isdecimal site"
       "filename = well @ ascii ''-Site_'' @ site @ ascii ''.csv''"
       "groups = [well, site]"
    by blast
  from *(3) have "\<exists>a b. filename = a @ ascii ''-Site_'' @ b @ ascii ''.csv''"
    by (intro exI)
  then have "fnmatch filename pattern"
    unfolding fnmatch_pattern .
  moreover from * have "filename = well @ ascii ''-Site_'' @ site @ ascii ''.csv'' @ []"
    by simp
  with * have "re_match isdecimal well_site_regex filename = Some groups"
    unfolding re_match_well_site_regex by blast
  ultimately show ?lhs ..
qed

lemma well_site_pattern_captures:
  assumes "well_site_pattern isdecimal filename"
  shows "fnmatch filename pattern"
    and "re_match isdecimal well_site_regex filename
           = Some [well_id_of isdecimal filename, site_of isdecimal filename]"
    and "is_well_id (well_id_of isdecimal filename)"
    and "is_site isdecimal (site_of isdecimal filename)"
    and "filename = well_id_of isdecimal filename @ ascii ''-Site_''
                      @ site_of isdecimal filename @ ascii ''.csv''"
proof -
  from assms obtain well site where
    *: "is_well_id well" "is_site isdecimal site"
       "filename = well @ ascii ''-Site_'' @ site @ ascii ''.csv''"
    unfolding well_site_pattern_def by blast
  then have "\<exists>well' site'. is_well_id well' \<and> is_site isdecimal site'
      \<and> filename = well' @ ascii ''-Site_'' @ site' @ ascii ''.csv''
      \<and> [well, site] = [well', site']"
    by blast
  then have acc: "fnmatch filename pattern
      \<and> re_match isdecimal well_site_regex filename = Some [well, site]"
    unfolding accepted_iff .
  then have "well_id_of isdecimal filename = well" "site_of isdecimal filename = site"
    by (simp_all add: well_id_of_def site_of_def)
  with * acc show "fnmatch filename pattern"
    and "re_match isdecimal well_site_regex filename
           = Some [well_id_of isdecimal filename, site_of isdecimal filename]"
    and "is_well_id (well_id_of isdecimal filename)"
    and "is_site isdecimal (site_of isdecimal filename)"
    and "filename = well_id_of isdecimal filename @ ascii ''-Site_''
                      @ site_of isdecimal filename @ ascii ''.csv''"
    by simp_all
qed

lemma not_well_site_pattern:
  assumes "\<not> well_site_pattern isdecimal filename" and "fnmatch filename pattern"
  shows "re_match isdecimal well_site_regex filename = None"
proof (cases "re_match isdecimal well_site_regex filename")
  case None
  then show ?thesis .
next
  case (Some groups)
  with assms(2) have
    "fnmatch filename pattern \<and> re_match isdecimal well_site_regex filename = Some groups"
    by simp
  then have "well_site_pattern isdecimal filename"
    unfolding accepted_iff well_site_pattern_def by blast
  with assms(1) show ?thesis
    by contradiction
qed

lemma well_site_regex_alone:
  "re_match isdecimal well_site_regex filename \<noteq> None \<longleftrightarrow>
     well_site_pattern isdecimal filename
   \<or> (\<exists>name. filename = name @ [10] \<and> well_site_pattern isdecimal name)"
  (is "?lhs \<longleftrightarrow> ?rhs")
proof
  assume ?lhs
  then obtain groups where "re_match isdecimal well_site_regex filename = Some groups"
    by auto
  then obtain well site nl where
    *: "is_well_id well" "is_site isdecimal site"
       "filename = well @ ascii ''-Site_'' @ site @ ascii ''.csv'' @ nl" "nl = [] \<or> nl = [10]"
    unfolding re_match_well_site_regex by blast
  from *(4) show ?rhs
  proof
    assume "nl = []"
    with * show ?thesis
      unfolding well_site_pattern_def by auto
  next
    assume "nl = [10]"
    with * have "filename = (well @ ascii ''-Site_'' @ site @ ascii ''.csv'') @ [10]"
      and "well_site_pattern isdecimal (well @ ascii ''-Site_'' @ site @ ascii ''.csv'')"
      unfolding well_site_pattern_def by auto
    then show ?thesis
      by blast
  qed
next
  assume ?rhs
  then obtain well site nl where
    "is_well_id well" "is_site isdecimal site"
    "filename = well @ ascii ''-Site_'' @ site @ ascii ''.csv'' @ nl" "nl = [] \<or> nl = [10]"
    unfolding well_site_pattern_def by auto
  then have "re_match isdecimal well_site_regex filename = Some [well, site]"
    unfolding re_match_well_site_regex by blast
  then show ?lhs
    by simp
qed

section \<open>The loop over a directory\<close>

text \<open>
  The loops of \<^verbatim>\<open>load_chlamy_spectra\<close> read the files of the walk whose names have the
  form above, in the order of the walk, stop at the first reader that raises, and append
  one entry per file read to each of the five lists.
\<close>

lemma bind_exn_simps [simp]:
  "bind_exn (Inl e) f = Inl e"
  "bind_exn (Inr x) f = f x"
  by (simp_all add: bind_exn_def)

lemma chlamy_file_eq:
  "chlamy_file isdecimal L root filename acc =
     (if well_site_pattern isdecimal filename
      then bind_exn (read_file L (root, filename))
             (\<lambda>s. Inr (appended isdecimal acc [s] [filename]))
      else Inr acc)"
proof (cases "well_site_pattern isdecimal filename")
  case True
  from well_site_pattern_captures(1,2) [OF True] True show ?thesis
    by (simp add: chlamy_file_def read_file_def appended_def)
next
  case False
  then show ?thesis
    using not_well_site_pattern [OF False]
    by (cases "fnmatch filename pattern") (simp_all add: chlamy_file_def)
qed

lemma collect_append:
  "collect (ms @ ns) = bind_exn (collect ms) (\<lambda>xs. bind_exn (collect ns) (\<lambda>ys. Inr (xs @ ys)))"
proof (induction ms)
  case Nil
  show ?case by (cases "collect ns") simp_all
next
  case (Cons m ms)
  show ?case
  proof (cases m)
    case (Inl e)
    then show ?thesis by simp
  next
    case (Inr x)
    then show ?thesis
      using Cons.IH by (cases "collect ms"; cases "collect ns") simp_all
  qed
qed

lemma collect_Inr_iff:
  "collect ms = Inr xs \<longleftrightarrow> ms = map Inr xs"
proof (induction ms arbitrary: xs)
  case Nil
  then show ?case by auto
next
  case (Cons m ms)
  show ?case
  proof (cases m)
    case (Inl e)
    then show ?thesis by (cases xs) simp_all
  next
    case (Inr x)
    show ?thesis
    proof (cases "collect ms")
      case (Inl e)
      with Cons.IH have "\<And>ys. ms \<noteq> map Inr ys"
        by auto
      with Inl \<open>m = Inr x\<close> show ?thesis
        by (cases xs) simp_all
    next
      case ys: (Inr ys)
      with Cons.IH [of ys] have "ms = map Inr ys"
        by simp
      with ys \<open>m = Inr x\<close> show ?thesis
        by (cases xs) auto
    qed
  qed
qed

lemma collect_length:
  "collect ms = Inr xs \<Longrightarrow> length xs = length ms"
  by (simp add: collect_Inr_iff)

lemma appended_Nil [simp]:
  "appended isdecimal acc [] [] = acc"
  by (simp add: appended_def)

lemma appended_appended:
  "appended isdecimal (appended isdecimal acc ss fs) ss' fs'
     = appended isdecimal acc (ss @ ss') (fs @ fs')"
  by (simp add: appended_def)

lemma chlamy_files_eq:
  "chlamy_files isdecimal L root filenames acc =
     bind_exn (collect (map (read_file L)
                 (map (Pair root) (filter (well_site_pattern isdecimal) filenames))))
       (\<lambda>ss. Inr (appended isdecimal acc ss (filter (well_site_pattern isdecimal) filenames)))"
proof (induction filenames arbitrary: acc)
  case Nil
  then show ?case by simp
next
  case (Cons filename filenames)
  show ?case
  proof (cases "well_site_pattern isdecimal filename")
    case False
    then show ?thesis
      using Cons.IH by (simp add: chlamy_file_eq)
  next
    case True
    show ?thesis
    proof (cases "read_file L (root, filename)")
      case (Inl e)
      with True show ?thesis
        by (simp add: chlamy_file_eq)
    next
      case (Inr s)
      with True show ?thesis
        using Cons.IH [of "appended isdecimal acc [s] [filename]"]
        by (cases "collect (map (read_file L)
                      (map (Pair root) (filter (well_site_pattern isdecimal) filenames)))")
           (simp_all add: chlamy_file_eq appended_appended)
    qed
  qed
qed

lemma chlamy_walk_eq:
  "chlamy_walk isdecimal L triples acc =
     bind_exn (collect (map (read_file L)
                 (filter (\<lambda>(dirpath, filename). well_site_pattern isdecimal filename)
                    (concat (map (\<lambda>(dirpath, dirnames, filenames). map (Pair dirpath) filenames)
                       triples)))))
       (\<lambda>ss. Inr (appended isdecimal acc ss
          (map snd (filter (\<lambda>(dirpath, filename). well_site_pattern isdecimal filename)
                    (concat (map (\<lambda>(dirpath, dirnames, filenames). map (Pair dirpath) filenames)
                       triples))))))"
proof (induction triples arbitrary: acc)
  case Nil
  then show ?case by simp
next
  case (Cons triple triples)
  obtain root dirnames filenames where triple: "triple = (root, dirnames, filenames)"
    by (cases triple)
  let ?here = "filter (well_site_pattern isdecimal) filenames"
  let ?rest = "filter (\<lambda>(dirpath, filename). well_site_pattern isdecimal filename)
                    (concat (map (\<lambda>(dirpath, dirnames, filenames). map (Pair dirpath) filenames)
                       triples))"
  have split: "filter (\<lambda>(dirpath, filename). well_site_pattern isdecimal filename)
                    (concat (map (\<lambda>(dirpath, dirnames, filenames). map (Pair dirpath) filenames)
                       (triple # triples))) = map (Pair root) ?here @ ?rest"
    by (simp add: triple filter_map comp_def)
  show ?case
    unfolding split
    using Cons.IH
    by (cases "collect (map (read_file L) (map (Pair root) ?here))";
        cases "collect (map (read_file L) ?rest)")
       (simp_all add: triple chlamy_files_eq collect_append appended_appended comp_def)
qed

lemma DataFrame_chlamy:
  "DataFrame
     [(ascii ''instrument'', map Str (map (\<lambda>f. ascii ''wasatch'') fs)),
      (lambda_nm, map Integer (map (\<lambda>f. 785) fs)),
      (ascii ''well_ID'', map Str (map (well_id_of isdecimal) fs)),
      (ascii ''site'', map Str (map (site_of isdecimal) fs))]
   = Inr \<lparr>columns = [ascii ''instrument'', lambda_nm, ascii ''well_ID'', ascii ''site''],
          rows = map (chlamy_row isdecimal) fs\<rparr>"
proof -
  have "map (\<lambda>i. [map Str (map (\<lambda>f. ascii ''wasatch'') fs) ! i,
                   map Integer (map (\<lambda>f. 785) fs) ! i,
                   map Str (map (well_id_of isdecimal) fs) ! i,
                   map Str (map (site_of isdecimal) fs) ! i]) [0..<length fs]
        = map (chlamy_row isdecimal) fs"
    by (rule nth_equalityI) (simp_all add: chlamy_row_def)
  then show ?thesis
    by (simp add: DataFrame_def)
qed

lemma chlamy_walk_os_walk:
  "chlamy_walk isdecimal L (os_walk data_directory tree) acc =
     bind_exn (collect (map (read_file L) (loaded_files isdecimal data_directory tree)))
       (\<lambda>ss. Inr (appended isdecimal acc ss
                     (map snd (loaded_files isdecimal data_directory tree))))"
  by (simp only: chlamy_walk_eq loaded_files_def walked_files_def)

lemma load_chlamy_spectra_eq:
  "load_chlamy_spectra isdecimal L data_directory tree =
     bind_exn (collect (map (read_file L) (loaded_files isdecimal data_directory tree)))
       (\<lambda>ss. Inr (ss, \<lparr>columns = [ascii ''instrument'', lambda_nm, ascii ''well_ID'',
                                   ascii ''site''],
                        rows = map (chlamy_row isdecimal)
                                 (map snd (loaded_files isdecimal data_directory tree))\<rparr>))"
proof (cases "collect (map (read_file L) (loaded_files isdecimal data_directory tree))")
  case (Inl e)
  then show ?thesis
    by (simp only: load_chlamy_spectra_def chlamy_walk_os_walk bind_exn_simps)
next
  case (Inr ss)
  then show ?thesis
    by (simp only: load_chlamy_spectra_def chlamy_walk_os_walk bind_exn_simps appended_def
          chlamy_lists.simps append_Nil DataFrame_chlamy)
qed

lemma load_chlamy_spectra_Inr_iff:
  "load_chlamy_spectra isdecimal L data_directory tree = Inr (loaded, dataframe) \<longleftrightarrow>
     map (read_file L) (loaded_files isdecimal data_directory tree) = map Inr loaded
   \<and> dataframe = \<lparr>columns = [ascii ''instrument'', lambda_nm, ascii ''well_ID'', ascii ''site''],
                   rows = map (chlamy_row isdecimal)
                            (map snd (loaded_files isdecimal data_directory tree))\<rparr>"
proof (cases "collect (map (read_file L) (loaded_files isdecimal data_directory tree))")
  case (Inl e)
  then have "map (read_file L) (loaded_files isdecimal data_directory tree) \<noteq> map Inr loaded"
    using collect_Inr_iff
            [of "map (read_file L) (loaded_files isdecimal data_directory tree)" loaded]
    by simp
  with Inl show ?thesis
    by (simp add: load_chlamy_spectra_eq)
next
  case (Inr ss)
  then have "map (read_file L) (loaded_files isdecimal data_directory tree) = map Inr ss"
    by (simp add: collect_Inr_iff)
  with Inr show ?thesis
    by (auto simp: load_chlamy_spectra_eq inj_map_eq_map)
qed

lemma loaded_files_nth:
  assumes "i < length (loaded_files isdecimal data_directory tree)"
  shows "loaded_files isdecimal data_directory tree ! i
           \<in> set (walked_files data_directory tree)"
    and "well_site_pattern isdecimal (snd (loaded_files isdecimal data_directory tree ! i))"
proof -
  from assms have "loaded_files isdecimal data_directory tree ! i
      \<in> set (loaded_files isdecimal data_directory tree)"
    by (rule nth_mem)
  then show "loaded_files isdecimal data_directory tree ! i
           \<in> set (walked_files data_directory tree)"
    and "well_site_pattern isdecimal (snd (loaded_files isdecimal data_directory tree ! i))"
    by (auto simp: loaded_files_def)
qed

section \<open>The loaders of the fixed data sets\<close>

lemmas path_defs = truediv_def DATA_DIRECTORY_def

lemmas loader_defs =
  filepaths_def getitem_def from_records_def record_of_def lambda_nm_def first_row_def



lemma load_acetonitrile_spectra_result:
  assumes "from_horiba_txtfile L
             (Path (truediv (DATA_DIRECTORY root) (ascii ''Horiba_MacroRAM/acetonitrile.txt'')))
           = Inr s1"
    and "from_renishaw_txtfile L
             (Path (truediv (DATA_DIRECTORY root) (ascii ''Renishaw_Qontor/acetonitrile_5x.txt'')))
           = Inr s2"
    and "from_wasatch_csvfile L
             (Path (truediv (DATA_DIRECTORY root) (ascii ''Wasatch_WP785X/acetonitrile.csv'')))
           = Inr s3"
    and "from_openraman_csvfiles L
             (Path (truediv (DATA_DIRECTORY root)
                (ascii ''OpenRAMAN/acetonitrile_n_n_n_solid_10000_0_5.csv'')))
             (Path (truediv (DATA_DIRECTORY root) (ascii ''OpenRAMAN/neon_n_n_n_solid_10000_0_5.csv'')))
             (Path (truediv (DATA_DIRECTORY root)
                (ascii ''OpenRAMAN/acetonitrile_n_n_n_solid_10000_0_5.csv'')))
           = Inr s4"
    and "from_generic_csvfile L
             (Path (truediv (DATA_DIRECTORY root) (ascii ''Wasatch_WP532X/acetonitrile.csv'')))
           = Inr s5"
  shows "load_acetonitrile_spectra L root =
           Inr ([s1, s2, s3, s4, s5],
                \<lparr>columns = [ascii ''instrument'', lambda_nm],
                 rows = [[Str (ascii ''horiba''), Integer 785],
                         [Str (ascii ''renishaw''), Integer 785],
                         [Str (ascii ''wasatch''), Integer 785],
                         [Str (ascii ''openraman''), Integer 532],
                         [Str (ascii ''wasatch''), Integer 532]]\<rparr>)"
  using assms
  by (simp add: load_acetonitrile_spectra_def loader_defs)


lemma load_cc124_tap_spectra_result:
  assumes "from_horiba_txtfile L
             (Path (truediv (DATA_DIRECTORY root) (ascii ''Horiba_MacroRAM/CC-124-TAP-2.txt'')))
           = Inr s1"
    and "from_openraman_csvfiles L
             (Path (truediv (DATA_DIRECTORY root) (ascii ''OpenRAMAN/CC-124_TAP_Pos-2-000_002.csv'')))
             (Path (truediv (DATA_DIRECTORY root) (ascii ''OpenRAMAN/neon_n_n_n_solid_10000_0_5.csv'')))
             (Path (truediv (DATA_DIRECTORY root)
                (ascii ''OpenRAMAN/acetonitrile_n_n_n_solid_10000_0_5.csv'')))
           = Inr s4"
    and "read_renishaw_multipoint_txt L
             (Path (truediv (DATA_DIRECTORY root)
                (ascii ''Renishaw_Qontor/CC-124_TAP_plate_5x_3_points.txt'')))
           = Inr (wavenumbers_cm1, row0 # more_rows, positions)"
    and "RamanSpectrum L wavenumbers_cm1 row0 = Inr s2"
    and "from_generic_csvfile L
             (Path (truediv (DATA_DIRECTORY root)
                (ascii ''Wasatch_WP532X/CC-124_TAP_Pos-4-002_001.csv'')))
           = Inr s5"
    and "from_wasatch_csvfile L
             (Path (truediv (DATA_DIRECTORY root) (ascii ''Wasatch_WP785X/CC-124_TAP_WP-02071.csv'')))
           = Inr s3"
  shows "load_cc124_tap_spectra L root =
           Inr ([s1, s2, s3, s4, s5],
                \<lparr>columns = [ascii ''instrument'', lambda_nm],
                 rows = [[Str (ascii ''horiba''), Integer 785],
                         [Str (ascii ''renishaw''), Integer 785],
                         [Str (ascii ''wasatch''), Integer 785],
                         [Str (ascii ''openraman''), Integer 532],
                         [Str (ascii ''wasatch''), Integer 532]]\<rparr>)"
  using assms
  by (simp add: load_cc124_tap_spectra_def loader_defs)

lemma load_cc124_tap_spectra_Inr:
  assumes "load_cc124_tap_spectra L root = Inr (loaded, dataframe)"
  shows "\<exists>s1 s2 s3 s4 s5 wavenumbers_cm1 row0 more_rows positions.
      loaded = [s1, s2, s3, s4, s5]
    \<and> dataframe = \<lparr>columns = [ascii ''instrument'', lambda_nm],
                    rows = [[Str (ascii ''horiba''), Integer 785],
                            [Str (ascii ''renishaw''), Integer 785],
                            [Str (ascii ''wasatch''), Integer 785],
                            [Str (ascii ''openraman''), Integer 532],
                            [Str (ascii ''wasatch''), Integer 532]]\<rparr>
    \<and> from_horiba_txtfile L
         (Path (truediv (DATA_DIRECTORY root) (ascii ''Horiba_MacroRAM/CC-124-TAP-2.txt'')))
       = Inr s1
    \<and> from_openraman_csvfiles L
         (Path (truediv (DATA_DIRECTORY root) (ascii ''OpenRAMAN/CC-124_TAP_Pos-2-000_002.csv'')))
         (Path (truediv (DATA_DIRECTORY root) (ascii ''OpenRAMAN/neon_n_n_n_solid_10000_0_5.csv'')))
         (Path (truediv (DATA_DIRECTORY root)
            (ascii ''OpenRAMAN/acetonitrile_n_n_n_solid_10000_0_5.csv'')))
       = Inr s4
    \<and> read_renishaw_multipoint_txt L
         (Path (truediv (DATA_DIRECTORY root)
            (ascii ''Renishaw_Qontor/CC-124_TAP_plate_5x_3_points.txt'')))
       = Inr (wavenumbers_cm1, row0 # more_rows, positions)
    \<and> RamanSpectrum L wavenumbers_cm1 row0 = Inr s2
    \<and> from_generic_csvfile L
         (Path (truediv (DATA_DIRECTORY root)
            (ascii ''Wasatch_WP532X/CC-124_TAP_Pos-4-002_001.csv'')))
       = Inr s5
    \<and> from_wasatch_csvfile L
         (Path (truediv (DATA_DIRECTORY root) (ascii ''Wasatch_WP785X/CC-124_TAP_WP-02071.csv'')))
       = Inr s3"
  using assms
  by (auto simp: load_cc124_tap_spectra_def loader_defs bind_exn_def
        split: sum.splits prod.splits list.splits)

section \<open>The loaders on the concrete inputs\<close>

lemma example_chlamy:
  "load_chlamy_spectra example_isdecimal example_library (ascii ''data'') (Some example_tree) =
     Inr ([FromFile ''generic_csv'' [PathStr (ascii ''data/A1-Site_1.csv'')],
           FromFile ''generic_csv'' [PathStr (ascii ''data/plate2/H12-Site_03.csv'')],
           FromFile ''generic_csv''
             [PathStr (ascii ''data/plate2/B7-Site_'' @ [1636, 1634] @ ascii ''.csv'')]],
          \<lparr>columns = [ascii ''instrument'', lambda_nm, ascii ''well_ID'', ascii ''site''],
           rows = [[Str (ascii ''wasatch''), Integer 785, Str (ascii ''A1''), Str (ascii ''1'')],
                   [Str (ascii ''wasatch''), Integer 785, Str (ascii ''H12''), Str (ascii ''03'')],
                   [Str (ascii ''wasatch''), Integer 785, Str (ascii ''B7''),
                    Str [1636, 1634]]]\<rparr>)"
  by (simp add: load_chlamy_spectra_def os_walk_def example_tree_def os_path_join_def
        chlamy_file_def pattern_def well_site_regex_def re_match_def example_library_def
        DataFrame_def unicode_digit_def example_isdecimal_def)


lemma example_cc124:
  "load_cc124_tap_spectra example_library [ascii ''repo''] =
     Inr ([FromFile ''horiba_txt''
             [Path [ascii ''repo'', ascii ''data'', ascii ''Horiba_MacroRAM'',
                    ascii ''CC-124-TAP-2.txt'']],
           FromArrays [100, 200] [1, 2],
           FromFile ''wasatch_csv''
             [Path [ascii ''repo'', ascii ''data'', ascii ''Wasatch_WP785X'',
                    ascii ''CC-124_TAP_WP-02071.csv'']],
           FromFile ''openraman_csv''
             [Path [ascii ''repo'', ascii ''data'', ascii ''OpenRAMAN'',
                    ascii ''CC-124_TAP_Pos-2-000_002.csv''],
              Path [ascii ''repo'', ascii ''data'', ascii ''OpenRAMAN'',
                    ascii ''neon_n_n_n_solid_10000_0_5.csv''],
              Path [ascii ''repo'', ascii ''data'', ascii ''OpenRAMAN'',
                    ascii ''acetonitrile_n_n_n_solid_10000_0_5.csv'']],
           FromFile ''generic_csv''
             [Path [ascii ''repo'', ascii ''data'', ascii ''Wasatch_WP532X'',
                    ascii ''CC-124_TAP_Pos-4-002_001.csv'']]],
          \<lparr>columns = [ascii ''instrument'', lambda_nm],
           rows = [[Str (ascii ''horiba''), Integer 785],
                   [Str (ascii ''renishaw''), Integer 785],
                   [Str (ascii ''wasatch''), Integer 785],
                   [Str (ascii ''openraman''), Integer 532],
                   [Str (ascii ''wasatch''), Integer 532]]\<rparr>)"
  by (simp add: load_cc124_tap_spectra_def loader_defs path_defs example_library_def)

section \<open>Tables and spectra\<close>






text \<open>
  C2: \<^verbatim>\<open>load_chlamy_spectra\<close> returns spectra and a table exactly when the spectra are
  what the reader returns for the files of the walk whose names have the form
  well, \<^verbatim>\<open>-Site_\<close>, digit string, \<^verbatim>\<open>.csv\<close> (a well is a letter A-H followed by a number 1-12,
  a digit is what \<^verbatim>\<open>\d\<close> matches), in the order of the walk, and the table has one row for
  each of these files and no other row; a name has this form exactly when it passes the
  two tests of the loop, the shell pattern and the regular expression.
\<close>

theorem load_chlamy_spectra_loads_matching_files:
  "(load_chlamy_spectra isdecimal L data_directory tree = Inr (loaded, dataframe) \<longleftrightarrow>
      map (read_file L) (loaded_files isdecimal data_directory tree) = map Inr loaded
    \<and> dataframe =
        \<lparr>columns = [ascii ''instrument'', lambda_nm, ascii ''well_ID'', ascii ''site''],
         rows = map (chlamy_row isdecimal)
                  (map snd (loaded_files isdecimal data_directory tree))\<rparr>)
   \<and> (well_site_pattern isdecimal filename \<longleftrightarrow>
        fnmatch filename pattern \<and> re_match isdecimal well_site_regex filename \<noteq> None)"
proof (rule conjI)
  show "load_chlamy_spectra isdecimal L data_directory tree = Inr (loaded, dataframe) \<longleftrightarrow>
      map (read_file L) (loaded_files isdecimal data_directory tree) = map Inr loaded
    \<and> dataframe =
        \<lparr>columns = [ascii ''instrument'', lambda_nm, ascii ''well_ID'', ascii ''site''],
         rows = map (chlamy_row isdecimal)
                  (map snd (loaded_files isdecimal data_directory tree))\<rparr>"
    by (rule load_chlamy_spectra_Inr_iff)
  show "well_site_pattern isdecimal filename \<longleftrightarrow>
        fnmatch filename pattern \<and> re_match isdecimal well_site_regex filename \<noteq> None"
  proof
    assume "well_site_pattern isdecimal filename"
    from well_site_pattern_captures(1,2) [OF this]
    show "fnmatch filename pattern \<and> re_match isdecimal well_site_regex filename \<noteq> None"
      by simp
  next
    assume "fnmatch filename pattern \<and> re_match isdecimal well_site_regex filename \<noteq> None"
    then have matched: "fnmatch filename pattern"
      and captured: "re_match isdecimal well_site_regex filename \<noteq> None"
      by simp_all
    show "well_site_pattern isdecimal filename"
    proof (rule ccontr)
      assume "\<not> well_site_pattern isdecimal filename"
      from not_well_site_pattern [OF this matched] captured show False
        by contradiction
    qed
  qed
qed

text \<open>
  An instance: of the six files of the example directory the three with names of this
  form are loaded; \<^verbatim>\<open>I1\<close> and \<^verbatim>\<open>A13\<close> are not wells, and the digits of the last name are
  Arabic-Indic.
\<close>

theorem load_chlamy_spectra_loads_matching_files_witness:
  "map snd (loaded_files example_isdecimal (ascii ''data'') (Some example_tree))
     = [ascii ''A1-Site_1.csv'', ascii ''H12-Site_03.csv'',
        ascii ''B7-Site_'' @ [1636, 1634] @ ascii ''.csv'']
   \<and> map snd (walked_files (ascii ''data'') (Some example_tree))
     = [ascii ''A1-Site_1.csv'', ascii ''notes.txt'', ascii ''I1-Site_2.csv'',
        ascii ''H12-Site_03.csv'', ascii ''A13-Site_1.csv'',
        ascii ''B7-Site_'' @ [1636, 1634] @ ascii ''.csv'']
   \<and> (\<exists>loaded dataframe.
        load_chlamy_spectra example_isdecimal example_library (ascii ''data'') (Some example_tree)
          = Inr (loaded, dataframe)
      \<and> length loaded = 3
      \<and> map (read_file example_library)
          (loaded_files example_isdecimal (ascii ''data'') (Some example_tree)) = map Inr loaded)"
proof -
  have accepted: "well_site_pattern example_isdecimal filename \<longleftrightarrow>
      fnmatch filename pattern \<and> re_match example_isdecimal well_site_regex filename \<noteq> None"
    for filename
    using load_chlamy_spectra_loads_matching_files
      [of example_isdecimal example_library "ascii ''data''" "Some example_tree" "[]"
          "\<lparr>columns = [], rows = []\<rparr>" filename]
    by (rule conjunct2)
  have walked: "map snd (walked_files (ascii ''data'') (Some example_tree))
     = [ascii ''A1-Site_1.csv'', ascii ''notes.txt'', ascii ''I1-Site_2.csv'',
        ascii ''H12-Site_03.csv'', ascii ''A13-Site_1.csv'',
        ascii ''B7-Site_'' @ [1636, 1634] @ ascii ''.csv'']"
    by (simp add: walked_files_def os_walk_def example_tree_def os_path_join_def)
  have loaded: "map snd (loaded_files example_isdecimal (ascii ''data'') (Some example_tree))
     = [ascii ''A1-Site_1.csv'', ascii ''H12-Site_03.csv'',
        ascii ''B7-Site_'' @ [1636, 1634] @ ascii ''.csv'']"
    by (simp add: loaded_files_def walked_files_def os_walk_def example_tree_def
          os_path_join_def accepted pattern_def well_site_regex_def re_match_def
          unicode_digit_def example_isdecimal_def)
  obtain l3 d3 where
    e3: "load_chlamy_spectra example_isdecimal example_library (ascii ''data'')
           (Some example_tree) = Inr (l3, d3)"
    and n3: "length l3 = 3"
    using example_chlamy by simp
  from load_chlamy_spectra_loads_matching_files
      [of example_isdecimal example_library "ascii ''data''" "Some example_tree" l3 d3 "[]"] e3
  have "map (read_file example_library)
          (loaded_files example_isdecimal (ascii ''data'') (Some example_tree)) = map Inr l3"
    by blast
  with walked loaded e3 n3 show ?thesis
    by blast
qed

text \<open>
  C3: the dict of \<^verbatim>\<open>load_acetonitrile_spectra\<close> maps the five instruments, in the order
  horiba 785, renishaw 785, wasatch 785, openraman 532, wasatch 532, to the five data
  files; and when the Horiba reader, the Renishaw reader, the Wasatch reader, the
  OpenRAMAN reader (with the neon and acetonitrile calibration files) and the generic
  reader return for the file of their instrument, the loader returns these five spectra
  in this order.
\<close>

theorem load_acetonitrile_spectra_readers:
  assumes "from_horiba_txtfile L
             (Path (truediv (DATA_DIRECTORY root) (ascii ''Horiba_MacroRAM/acetonitrile.txt'')))
           = Inr s1"
    and "from_renishaw_txtfile L
             (Path (truediv (DATA_DIRECTORY root) (ascii ''Renishaw_Qontor/acetonitrile_5x.txt'')))
           = Inr s2"
    and "from_wasatch_csvfile L
             (Path (truediv (DATA_DIRECTORY root) (ascii ''Wasatch_WP785X/acetonitrile.csv'')))
           = Inr s3"
    and "from_openraman_csvfiles L
             (Path (truediv (DATA_DIRECTORY root)
                (ascii ''OpenRAMAN/acetonitrile_n_n_n_solid_10000_0_5.csv'')))
             (Path (truediv (DATA_DIRECTORY root) (ascii ''OpenRAMAN/neon_n_n_n_solid_10000_0_5.csv'')))
             (Path (truediv (DATA_DIRECTORY root)
                (ascii ''OpenRAMAN/acetonitrile_n_n_n_solid_10000_0_5.csv'')))
           = Inr s4"
    and "from_generic_csvfile L
             (Path (truediv (DATA_DIRECTORY root) (ascii ''Wasatch_WP532X/acetonitrile.csv'')))
           = Inr s5"
  shows "map fst (filepaths root) =
           [(ascii ''horiba'', 785), (ascii ''renishaw'', 785), (ascii ''wasatch'', 785),
            (ascii ''openraman'', 532), (ascii ''wasatch'', 532)]
    \<and> map snd (filepaths root) =
           [truediv (DATA_DIRECTORY root) (ascii ''Horiba_MacroRAM/acetonitrile.txt''),
            truediv (DATA_DIRECTORY root) (ascii ''Renishaw_Qontor/acetonitrile_5x.txt''),
            truediv (DATA_DIRECTORY root) (ascii ''Wasatch_WP785X/acetonitrile.csv''),
            truediv (DATA_DIRECTORY root)
              (ascii ''OpenRAMAN/acetonitrile_n_n_n_solid_10000_0_5.csv''),
            truediv (DATA_DIRECTORY root) (ascii ''Wasatch_WP532X/acetonitrile.csv'')]
    \<and> (\<exists>dataframe. load_acetonitrile_spectra L root = Inr ([s1, s2, s3, s4, s5], dataframe))"
  using load_acetonitrile_spectra_result [OF assms]
  by (simp add: filepaths_def)

theorem load_acetonitrile_spectra_readers_witness:
  "\<exists>dataframe. load_acetonitrile_spectra example_library [ascii ''repo''] =
     Inr ([FromFile ''horiba_txt''
             [Path [ascii ''repo'', ascii ''data'', ascii ''Horiba_MacroRAM'',
                    ascii ''acetonitrile.txt'']],
           FromFile ''renishaw_txt''
             [Path [ascii ''repo'', ascii ''data'', ascii ''Renishaw_Qontor'',
                    ascii ''acetonitrile_5x.txt'']],
           FromFile ''wasatch_csv''
             [Path [ascii ''repo'', ascii ''data'', ascii ''Wasatch_WP785X'',
                    ascii ''acetonitrile.csv'']],
           FromFile ''openraman_csv''
             [Path [ascii ''repo'', ascii ''data'', ascii ''OpenRAMAN'',
                    ascii ''acetonitrile_n_n_n_solid_10000_0_5.csv''],
              Path [ascii ''repo'', ascii ''data'', ascii ''OpenRAMAN'',
                    ascii ''neon_n_n_n_solid_10000_0_5.csv''],
              Path [ascii ''repo'', ascii ''data'', ascii ''OpenRAMAN'',
                    ascii ''acetonitrile_n_n_n_solid_10000_0_5.csv'']],
           FromFile ''generic_csv''
             [Path [ascii ''repo'', ascii ''data'', ascii ''Wasatch_WP532X'',
                    ascii ''acetonitrile.csv'']]],
          dataframe)"
proof -
  have h1: "from_horiba_txtfile example_library p = Inr (FromFile ''horiba_txt'' [p])"
    and h2: "from_renishaw_txtfile example_library p = Inr (FromFile ''renishaw_txt'' [p])"
    and h3: "from_wasatch_csvfile example_library p = Inr (FromFile ''wasatch_csv'' [p])"
    and h4: "from_openraman_csvfiles example_library p q r
               = Inr (FromFile ''openraman_csv'' [p, q, r])"
    and h5: "from_generic_csvfile example_library p = Inr (FromFile ''generic_csv'' [p])"
    for p q r
    by (simp_all add: example_library_def)
  from load_acetonitrile_spectra_readers [of example_library "[ascii ''repo'']", OF h1 h2 h3 h4 h5]
  show ?thesis
    by (simp add: path_defs)
qed

text \<open>
  C9: whenever \<^verbatim>\<open>load_cc124_tap_spectra\<close> returns, the multipoint reader returned the
  wavenumbers and at least one row of intensities for the Renishaw file, and the second
  spectrum of the result, the one whose row in the table is renishaw 785, is the
  \<^verbatim>\<open>RamanSpectrum\<close> made of all the wavenumbers and the first row.
\<close>

theorem load_cc124_tap_spectra_renishaw_first_point:
  assumes "load_cc124_tap_spectra L root = Inr (loaded, dataframe)"
  shows "\<exists>wavenumbers_cm1 row0 more_rows positions.
      read_renishaw_multipoint_txt L
        (Path (truediv (DATA_DIRECTORY root)
           (ascii ''Renishaw_Qontor/CC-124_TAP_plate_5x_3_points.txt'')))
        = Inr (wavenumbers_cm1, row0 # more_rows, positions)
    \<and> RamanSpectrum L wavenumbers_cm1 row0 = Inr (loaded ! 1)
    \<and> rows dataframe ! 1 = [Str (ascii ''renishaw''), Integer 785]"
proof -
  from load_cc124_tap_spectra_Inr [OF assms] obtain s1 s2 s3 s4 s5 wavenumbers_cm1 row0
    more_rows positions where
    "loaded = [s1, s2, s3, s4, s5]"
    "dataframe = \<lparr>columns = [ascii ''instrument'', lambda_nm],
                    rows = [[Str (ascii ''horiba''), Integer 785],
                            [Str (ascii ''renishaw''), Integer 785],
                            [Str (ascii ''wasatch''), Integer 785],
                            [Str (ascii ''openraman''), Integer 532],
                            [Str (ascii ''wasatch''), Integer 532]]\<rparr>"
    "read_renishaw_multipoint_txt L
         (Path (truediv (DATA_DIRECTORY root)
            (ascii ''Renishaw_Qontor/CC-124_TAP_plate_5x_3_points.txt'')))
       = Inr (wavenumbers_cm1, row0 # more_rows, positions)"
    "RamanSpectrum L wavenumbers_cm1 row0 = Inr s2"
    by blast
  then show ?thesis
    by simp
qed

theorem load_cc124_tap_spectra_renishaw_first_point_witness:
  "(\<exists>loaded dataframe.
      load_cc124_tap_spectra example_library [ascii ''repo''] = Inr (loaded, dataframe)
      \<and> loaded ! 1 = FromArrays [100, 200] [1, 2])
   \<and> read_renishaw_multipoint_txt example_library
        (Path (truediv (DATA_DIRECTORY [ascii ''repo''])
           (ascii ''Renishaw_Qontor/CC-124_TAP_plate_5x_3_points.txt'')))
        = Inr ([100, 200], [[1, 2], [3, 4], [5, 6]], ())
   \<and> (\<exists>wavenumbers_cm1 row0 more_rows positions.
        read_renishaw_multipoint_txt example_library
          (Path (truediv (DATA_DIRECTORY [ascii ''repo''])
             (ascii ''Renishaw_Qontor/CC-124_TAP_plate_5x_3_points.txt'')))
          = Inr (wavenumbers_cm1, row0 # more_rows, positions)
      \<and> RamanSpectrum example_library wavenumbers_cm1 row0 = Inr (FromArrays [100, 200] [1, 2]))"
proof -
  have scan: "read_renishaw_multipoint_txt example_library p
                = Inr ([100, 200], [[1, 2], [3, 4], [5, 6]], ())" for p
    by (simp add: example_library_def)
  from load_cc124_tap_spectra_renishaw_first_point [OF example_cc124] example_cc124
  show ?thesis
    by (simp add: scan)
qed

text \<open>
  C10: whenever \<^verbatim>\<open>load_chlamy_spectra\<close> returns, the table has the columns
  \<^verbatim>\<open>instrument\<close>, \<^verbatim>\<open>\<lambda>_nm\<close>, \<^verbatim>\<open>well_ID\<close> and \<^verbatim>\<open>site\<close>, one row per file loaded, and row \<open>i\<close> is the
  string \<^verbatim>\<open>wasatch\<close>, the integer 785, and the two groups that the regular expression
  captures from the name of file \<open>i\<close>, both as strings.
\<close>

theorem load_chlamy_spectra_rows:
  assumes "load_chlamy_spectra isdecimal L data_directory tree = Inr (loaded, dataframe)"
  shows "columns dataframe = [ascii ''instrument'', lambda_nm, ascii ''well_ID'', ascii ''site'']
    \<and> length (rows dataframe) = length (loaded_files isdecimal data_directory tree)
    \<and> (\<forall>i<length (rows dataframe). \<exists>well_id site.
          re_match isdecimal well_site_regex
            (snd (loaded_files isdecimal data_directory tree ! i)) = Some [well_id, site]
        \<and> rows dataframe ! i = [Str (ascii ''wasatch''), Integer 785, Str well_id, Str site])"
proof -
  let ?lf = "loaded_files isdecimal data_directory tree"
  from assms have table: "dataframe =
      \<lparr>columns = [ascii ''instrument'', lambda_nm, ascii ''well_ID'', ascii ''site''],
       rows = map (chlamy_row isdecimal) (map snd ?lf)\<rparr>"
    by (simp add: load_chlamy_spectra_Inr_iff)
  have "\<exists>well_id site.
          re_match isdecimal well_site_regex (snd (?lf ! i)) = Some [well_id, site]
        \<and> rows dataframe ! i = [Str (ascii ''wasatch''), Integer 785, Str well_id, Str site]"
    if "i < length (rows dataframe)" for i
  proof -
    from that table have i: "i < length ?lf"
      by simp
    from loaded_files_nth(2) [OF i] have pat: "well_site_pattern isdecimal (snd (?lf ! i))" .
    from table i have "rows dataframe ! i = chlamy_row isdecimal (snd (?lf ! i))"
      by simp
    with well_site_pattern_captures(2) [OF pat] show ?thesis
      by (simp add: chlamy_row_def)
  qed
  with table show ?thesis
    by simp
qed

theorem load_chlamy_spectra_rows_witness:
  "\<exists>loaded dataframe.
      load_chlamy_spectra example_isdecimal example_library (ascii ''data'') (Some example_tree)
        = Inr (loaded, dataframe)
    \<and> columns dataframe = [ascii ''instrument'', lambda_nm, ascii ''well_ID'', ascii ''site'']
    \<and> length (rows dataframe) = 3
    \<and> rows dataframe ! 1
        = [Str (ascii ''wasatch''), Integer 785, Str (ascii ''H12''), Str (ascii ''03'')]
    \<and> re_match example_isdecimal well_site_regex (ascii ''H12-Site_03.csv'')
        = Some [ascii ''H12'', ascii ''03'']"
proof -
  have captured: "re_match example_isdecimal well_site_regex (ascii ''H12-Site_03.csv'')
        = Some [ascii ''H12'', ascii ''03'']"
    by (simp add: well_site_regex_def re_match_def unicode_digit_def example_isdecimal_def)
  from load_chlamy_spectra_rows [OF example_chlamy] captured example_chlamy
  show ?thesis
    by simp
qed

end
